theory Spec2Isabelle
  imports Complex_Main
begin

section \<open>Data model of the data hook\<close>

text \<open>
  The interfaces of the hook file, one record each. A TypeScript \<open>string\<close> is a
  \<open>string\<close>, an optional field is an \<open>option\<close>, a \<open>number\<close> is a \<open>real\<close> (the hook
  never computes with the fees, it only passes them on).
\<close>

datatype status = pending | approved | rejected

text \<open>The string literal each status stands for in the source.\<close>

fun status_text :: "status \<Rightarrow> string" where
  "status_text pending = ''pending''"
| "status_text approved = ''approved''"
| "status_text rejected = ''rejected''"

text \<open>
  \<open>Omit<Registration, 'id' | 'submitted_at' | 'user_id'>\<close>, the argument type of
  \<open>createRegistration\<close>; \<open>Registration\<close> extends it with the three omitted fields.
\<close>

record registration_data =
  full_name :: string
  mobile_number :: string
  whatsapp_number :: string
  address :: string
  panchayath_details :: string
  category :: string
  status :: status
  approved_at :: "string option"
  unique_id :: "string option"

record Registration = registration_data +
  id :: string
  submitted_at :: string
  user_id :: "string option"

record Category =
  id :: string
  name :: string
  label :: string
  actual_fee :: real
  offer_fee :: real
  has_offer :: bool
  image_url :: "string option"

record Panchayath =
  id :: string
  malayalam_name :: string
  english_name :: string
  pincode :: "string option"
  district :: string

record Announcement =
  id :: string
  title :: string
  content :: string
  link :: "string option"
  category :: "string option"
  is_active :: bool
  created_at :: string

record PhotoGalleryItem =
  id :: string
  title :: string
  image_url :: string
  description :: "string option"
  category :: string
  uploaded_at :: string

text \<open>
  A notification row as the remote query delivers it: \<open>target_audience\<close> is whatever
  text the remote column holds. The interface narrows it to four literals, and
  \<open>fetchData\<close> checks the rows against them at run time (the type guard of its filter).
\<close>

record PushNotification =
  id :: string
  title :: string
  content :: string
  target_audience :: string
  target_value :: "string option"
  scheduled_at :: "string option"
  sent_at :: "string option"
  is_active :: bool
  created_at :: string

section \<open>The remote client, as the hook sees it\<close>

text \<open>The error object of a failed request (its message).\<close>

datatype remote_error = RemoteError string

text \<open>The \<open>{ data, error }\<close> object a request resolves to.\<close>

record 'a response =
  data :: "'a option"
  error :: "remote_error option"

text \<open>What an \<open>await\<close> on a request yields: the promise rejects, or resolves to a response.\<close>

datatype 'a awaited = Rejected remote_error | Resolved "'a response"

text \<open>Values written into filters and update objects.\<close>

datatype jsval = JString string | JNumber real | JBoolean bool

text \<open>
  A request is the chain of builder calls that makes it, in the order written:
  \<open>supabase.from('categories').select('*').order('name')\<close> is
  \<open>[From ''categories'', Select (Some ''*''), Order ''name'' None]\<close>. An argument the
  source leaves out is \<open>None\<close>.
\<close>

datatype builder_call =
    From string
  | Select "string option"
  | Eq string jsval
  | Order string "bool option"
  | Insert "registration_data list"
  | Update "(string \<times> jsval) list"
  | Delete
  | Single

type_synonym query = "builder_call list"

section \<open>State and effects\<close>

text \<open>The seven \<open>useState\<close> cells of \<open>useSupabaseData\<close>.\<close>

record hook_state =
  registrations :: "Registration list"
  categories :: "Category list"
  panchayaths :: "Panchayath list"
  announcements :: "Announcement list"
  photoGallery :: "PhotoGalleryItem list"
  notifications :: "PushNotification list"
  loading :: bool

text \<open>The \<open>useState\<close> initial values.\<close>

definition initial_state :: hook_state where
  "initial_state =
     \<lparr>registrations = [], categories = [], panchayaths = [], announcements = [],
      photoGallery = [], notifications = [], loading = True\<rparr>"

text \<open>The object passed to \<open>toast\<close>; \<open>variant\<close> is left out on the success paths.\<close>

record toast_message =
  title :: string
  description :: string
  variant :: "string option"

text \<open>
  Everything a call can touch: the hook's state, the requests sent to the remote client
  so far, the lines written with \<open>console.error\<close>, and the toasts shown.
\<close>

record world =
  hook :: hook_state
  requests :: "query list"
  console :: "(string \<times> remote_error) list"
  toasts :: "toast_message list"

definition initial_world :: world where
  "initial_world = \<lparr>hook = initial_state, requests = [], console = [], toasts = []\<rparr>"

text \<open>
  A statement either completes with a value or throws; either way it leaves a world
  behind (nothing is rolled back by a throw).
\<close>

datatype 'a completion = Returned 'a | Thrown remote_error

type_synonym 'a prog = "world \<Rightarrow> 'a completion \<times> world"

definition return :: "'a \<Rightarrow> 'a prog" where
  "return x = (\<lambda>w. (Returned x, w))"

definition throw :: "remote_error \<Rightarrow> 'a prog" where
  "throw e = (\<lambda>w. (Thrown e, w))"

definition bindP :: "'a prog \<Rightarrow> ('a \<Rightarrow> 'b prog) \<Rightarrow> 'b prog" where
  "bindP m f = (\<lambda>w. case m w of
                       (Returned x, w') \<Rightarrow> f x w'
                     | (Thrown e, w') \<Rightarrow> (Thrown e, w'))"

text \<open>\<open>m; n\<close>\<close>

definition seq :: "unit prog \<Rightarrow> 'a prog \<Rightarrow> 'a prog" where
  "seq m n = bindP m (\<lambda>_. n)"

text \<open>\<open>try { body } catch (error) { handler }\<close>\<close>

definition try_catch :: "'a prog \<Rightarrow> (remote_error \<Rightarrow> 'a prog) \<Rightarrow> 'a prog" where
  "try_catch body handler =
     (\<lambda>w. case body w of
             (Returned x, w') \<Rightarrow> (Returned x, w')
           | (Thrown e, w') \<Rightarrow> handler e w')"

text \<open>
  \<open>try { body } catch (error) { handler } finally { fin }\<close>: the finally block runs
  on every path, and a throw of its own replaces the completion it was given.
\<close>

definition try_catch_finally ::
  "'a prog \<Rightarrow> (remote_error \<Rightarrow> 'a prog) \<Rightarrow> unit prog \<Rightarrow> 'a prog" where
  "try_catch_finally body handler fin =
     (\<lambda>w. case try_catch body handler w of
             (c, w') \<Rightarrow> (case fin w' of
                           (Returned _, w'') \<Rightarrow> (c, w'')
                         | (Thrown e, w'') \<Rightarrow> (Thrown e, w'')))"

text \<open>
  \<open>await\<close> on a request: the request goes out (it is appended to the log), and the
  answer of the remote side is the second argument. A rejected promise throws at the
  \<open>await\<close>.
\<close>

definition await :: "query \<Rightarrow> 'a awaited \<Rightarrow> 'a response prog" where
  "await q a =
     (\<lambda>w. case a of
             Rejected e \<Rightarrow> (Thrown e, w\<lparr>requests := requests w @ [q]\<rparr>)
           | Resolved r \<Rightarrow> (Returned r, w\<lparr>requests := requests w @ [q]\<rparr>))"

text \<open>\<open>if (error) throw error;\<close>\<close>

definition throw_if :: "remote_error option \<Rightarrow> unit prog" where
  "throw_if err = (case err of Some e \<Rightarrow> throw e | None \<Rightarrow> return ())"

text \<open>\<open>data || []\<close> on an array or null: every array is truthy, also the empty one.\<close>

definition or_empty :: "'a list option \<Rightarrow> 'a list" where
  "or_empty d = (case d of Some xs \<Rightarrow> xs | None \<Rightarrow> [])"

definition console_error :: "string \<Rightarrow> remote_error \<Rightarrow> unit prog" where
  "console_error msg e = (\<lambda>w. (Returned (), w\<lparr>console := console w @ [(msg, e)]\<rparr>))"

definition toast :: "toast_message \<Rightarrow> unit prog" where
  "toast t = (\<lambda>w. (Returned (), w\<lparr>toasts := toasts w @ [t]\<rparr>))"

definition setLoading :: "bool \<Rightarrow> unit prog" where
  "setLoading b = (\<lambda>w. (Returned (), w\<lparr>hook := (hook w)\<lparr>loading := b\<rparr>\<rparr>))"

definition setCategories :: "Category list \<Rightarrow> unit prog" where
  "setCategories v = (\<lambda>w. (Returned (), w\<lparr>hook := (hook w)\<lparr>categories := v\<rparr>\<rparr>))"

definition setPanchayaths :: "Panchayath list \<Rightarrow> unit prog" where
  "setPanchayaths v = (\<lambda>w. (Returned (), w\<lparr>hook := (hook w)\<lparr>panchayaths := v\<rparr>\<rparr>))"

definition setAnnouncements :: "Announcement list \<Rightarrow> unit prog" where
  "setAnnouncements v = (\<lambda>w. (Returned (), w\<lparr>hook := (hook w)\<lparr>announcements := v\<rparr>\<rparr>))"

definition setPhotoGallery :: "PhotoGalleryItem list \<Rightarrow> unit prog" where
  "setPhotoGallery v = (\<lambda>w. (Returned (), w\<lparr>hook := (hook w)\<lparr>photoGallery := v\<rparr>\<rparr>))"

definition setRegistrations :: "Registration list \<Rightarrow> unit prog" where
  "setRegistrations v = (\<lambda>w. (Returned (), w\<lparr>hook := (hook w)\<lparr>registrations := v\<rparr>\<rparr>))"

definition setNotifications :: "PushNotification list \<Rightarrow> unit prog" where
  "setNotifications v = (\<lambda>w. (Returned (), w\<lparr>hook := (hook w)\<lparr>notifications := v\<rparr>\<rparr>))"

section \<open>fetchData\<close>

text \<open>The answers of the remote side to the six reads of one \<open>fetchData\<close> call.\<close>

record remote_reads =
  categoriesRead :: "Category list awaited"
  panchayathsRead :: "Panchayath list awaited"
  announcementsRead :: "Announcement list awaited"
  galleryRead :: "PhotoGalleryItem list awaited"
  registrationsRead :: "Registration list awaited"
  notificationsRead :: "PushNotification list awaited"

text \<open>The six requests, as written in the source.\<close>

definition categoriesQuery :: query where
  "categoriesQuery = [From ''categories'', Select (Some ''*''), Order ''name'' None]"

definition panchayathsQuery :: query where
  "panchayathsQuery = [From ''panchayaths'', Select (Some ''*''), Order ''malayalam_name'' None]"

definition announcementsQuery :: query where
  "announcementsQuery =
     [From ''announcements'', Select (Some ''*''), Eq ''is_active'' (JBoolean True),
      Order ''created_at'' (Some False)]"

definition galleryQuery :: query where
  "galleryQuery = [From ''photo_gallery'', Select (Some ''*''), Order ''uploaded_at'' (Some False)]"

definition registrationsQuery :: query where
  "registrationsQuery =
     [From ''registrations'', Select (Some ''*''), Order ''submitted_at'' (Some False)]"

definition notificationsQuery :: query where
  "notificationsQuery =
     [From ''push_notifications'', Select (Some ''*''), Order ''created_at'' (Some False)]"

text \<open>\<open>['all', 'category', 'panchayath', 'admin'].includes(notif.target_audience)\<close>\<close>

definition valid_target_audience :: "PushNotification \<Rightarrow> bool" where
  "valid_target_audience notif \<longleftrightarrow>
     target_audience notif \<in> set [''all'', ''category'', ''panchayath'', ''admin'']"

definition fetchData :: "remote_reads \<Rightarrow> unit prog" where
  "fetchData rs =
     try_catch_finally
       (seq (setLoading True)
       (bindP (await categoriesQuery (categoriesRead rs)) (\<lambda>categoriesRes.
        seq (throw_if (error categoriesRes))
       (seq (setCategories (or_empty (data categoriesRes)))
       (bindP (await panchayathsQuery (panchayathsRead rs)) (\<lambda>panchayathsRes.
        seq (throw_if (error panchayathsRes))
       (seq (setPanchayaths (or_empty (data panchayathsRes)))
       (bindP (await announcementsQuery (announcementsRead rs)) (\<lambda>announcementsRes.
        seq (throw_if (error announcementsRes))
       (seq (setAnnouncements (or_empty (data announcementsRes)))
       (bindP (await galleryQuery (galleryRead rs)) (\<lambda>galleryRes.
        seq (throw_if (error galleryRes))
       (seq (setPhotoGallery (or_empty (data galleryRes)))
       (bindP (await registrationsQuery (registrationsRead rs)) (\<lambda>registrationsRes.
        seq (throw_if (error registrationsRes))
       (seq (setRegistrations (or_empty (data registrationsRes)))
       (bindP (await notificationsQuery (notificationsRead rs)) (\<lambda>notificationsRes.
        seq (throw_if (error notificationsRes))
       (setNotifications
          (filter valid_target_audience (or_empty (data notificationsRes))))))))))))))))))))))
       (\<lambda>error.
          seq (console_error ''Error fetching data:'' error)
              (toast \<lparr>title = ''Error'',
                      description = ''Failed to load data. Please try again.'',
                      variant = Some ''destructive''\<rparr>))
       (setLoading False)"

section \<open>The mutators\<close>

text \<open>
  Each mutator takes, after the arguments of the source function, the answer of the
  remote side to its one write and the answers to the reads of the \<open>fetchData\<close> call
  that may follow. \<open>null\<close> is \<open>None\<close>. The parameters \<open>id\<close> and \<open>status\<close> of the
  source are written \<open>rid\<close> and \<open>st\<close>, the plain names being field selectors here.
\<close>

definition insertQuery :: "registration_data \<Rightarrow> query" where
  "insertQuery registrationData =
     [From ''registrations'', Insert [registrationData], Select None, Single]"

definition createRegistration ::
  "registration_data \<Rightarrow> Registration awaited \<Rightarrow> remote_reads \<Rightarrow> Registration option prog" where
  "createRegistration registrationData answer rs =
     try_catch
       (bindP (await (insertQuery registrationData) answer) (\<lambda>res.
        seq (throw_if (error res))
       (seq (toast \<lparr>title = ''Registration Submitted'',
                     description = ''Your registration has been submitted successfully.'',
                     variant = None\<rparr>)
       (seq (fetchData rs)
            (return (data res))))))
       (\<lambda>error.
          seq (console_error ''Error creating registration:'' error)
         (seq (toast \<lparr>title = ''Error'',
                       description = ''Failed to submit registration. Please try again.'',
                       variant = Some ''destructive''\<rparr>)
              (return None)))"

text \<open>
  The object \<open>updateData\<close>: \<open>{ status, approved_at }\<close>, and \<open>unique_id\<close> added under
  \<open>if (uniqueId)\<close>, which an absent and an empty string both fail. \<open>now\<close> is
  \<open>new Date().toISOString()\<close>, the clock read at the call.
\<close>

definition updateData :: "status \<Rightarrow> string \<Rightarrow> string option \<Rightarrow> (string \<times> jsval) list" where
  "updateData st now uniqueId =
     (let updateData = [(''status'', JString (status_text st)), (''approved_at'', JString now)]
      in case uniqueId of
           None \<Rightarrow> updateData
         | Some u \<Rightarrow> if u \<noteq> [] then updateData @ [(''unique_id'', JString u)] else updateData)"

definition statusQuery :: "string \<Rightarrow> status \<Rightarrow> string \<Rightarrow> string option \<Rightarrow> query" where
  "statusQuery rid st now uniqueId =
     [From ''registrations'', Update (updateData st now uniqueId), Eq ''id'' (JString rid)]"

definition updateRegistrationStatus ::
  "string \<Rightarrow> status \<Rightarrow> string option \<Rightarrow> string \<Rightarrow> unit awaited \<Rightarrow> remote_reads \<Rightarrow> bool prog" where
  "updateRegistrationStatus rid st uniqueId now answer rs =
     try_catch
       (bindP (await (statusQuery rid st now uniqueId) answer) (\<lambda>res.
        seq (throw_if (error res))
       (seq (toast \<lparr>title = ''Registration Updated'',
                     description = ''Registration has been '' @ status_text st @ ''.'',
                     variant = None\<rparr>)
       (seq (fetchData rs)
            (return True)))))
       (\<lambda>error.
          seq (console_error ''Error updating registration:'' error)
         (seq (toast \<lparr>title = ''Error'',
                       description = ''Failed to update registration. Please try again.'',
                       variant = Some ''destructive''\<rparr>)
              (return False)))"

definition deleteQuery :: "string \<Rightarrow> query" where
  "deleteQuery rid = [From ''registrations'', Delete, Eq ''id'' (JString rid)]"

definition deleteRegistration :: "string \<Rightarrow> unit awaited \<Rightarrow> remote_reads \<Rightarrow> bool prog" where
  "deleteRegistration rid answer rs =
     try_catch
       (bindP (await (deleteQuery rid) answer) (\<lambda>res.
        seq (throw_if (error res))
       (seq (toast \<lparr>title = ''Registration Deleted'',
                     description = ''Registration has been deleted successfully.'',
                     variant = None\<rparr>)
       (seq (fetchData rs)
            (return True)))))
       (\<lambda>error.
          seq (console_error ''Error deleting registration:'' error)
         (seq (toast \<lparr>title = ''Error'',
                       description = ''Failed to delete registration. Please try again.'',
                       variant = Some ''destructive''\<rparr>)
              (return False)))"

definition imageQuery :: "string \<Rightarrow> string \<Rightarrow> query" where
  "imageQuery categoryName imageUrl =
     [From ''categories'', Update [(''image_url'', JString imageUrl)],
      Eq ''name'' (JString categoryName)]"

definition updateCategoryImage ::
  "string \<Rightarrow> string \<Rightarrow> unit awaited \<Rightarrow> remote_reads \<Rightarrow> bool prog" where
  "updateCategoryImage categoryName imageUrl answer rs =
     try_catch
       (bindP (await (imageQuery categoryName imageUrl) answer) (\<lambda>res.
        seq (throw_if (error res))
       (seq (toast \<lparr>title = ''Category Updated'',
                     description = ''Category image has been updated successfully.'',
                     variant = None\<rparr>)
       (seq (fetchData rs)
            (return True)))))
       (\<lambda>error.
          seq (console_error ''Error updating category image:'' error)
         (seq (toast \<lparr>title = ''Error'',
                       description = ''Failed to update category image. Please try again.'',
                       variant = Some ''destructive''\<rparr>)
              (return False)))"

definition feesQuery :: "string \<Rightarrow> real \<Rightarrow> real \<Rightarrow> bool \<Rightarrow> query" where
  "feesQuery categoryName actualFee offerFee hasOffer =
     [From ''categories'',
      Update [(''actual_fee'', JNumber actualFee), (''offer_fee'', JNumber offerFee),
              (''has_offer'', JBoolean hasOffer)],
      Eq ''name'' (JString categoryName)]"

definition updateCategoryFees ::
  "string \<Rightarrow> real \<Rightarrow> real \<Rightarrow> bool \<Rightarrow> unit awaited \<Rightarrow> remote_reads \<Rightarrow> bool prog" where
  "updateCategoryFees categoryName actualFee offerFee hasOffer answer rs =
     try_catch
       (bindP (await (feesQuery categoryName actualFee offerFee hasOffer) answer) (\<lambda>res.
        seq (throw_if (error res))
       (seq (toast \<lparr>title = ''Category Updated'',
                     description = ''Category fees have been updated successfully.'',
                     variant = None\<rparr>)
       (seq (fetchData rs)
            (return True)))))
       (\<lambda>error.
          seq (console_error ''Error updating category fees:'' error)
         (seq (toast \<lparr>title = ''Error'',
                       description = ''Failed to update category fees. Please try again.'',
                       variant = Some ''destructive''\<rparr>)
              (return False)))"

section \<open>Calls in sequence\<close>

text \<open>
  What a component can do with the hook: \<open>refreshData\<close> (also the call of the mount
  effect) and the five mutators, each with the answers the remote side gives during
  the call.
\<close>

datatype action =
    Refresh remote_reads
  | CreateRegistration registration_data "Registration awaited" remote_reads
  | UpdateRegistrationStatus string status "string option" string "unit awaited" remote_reads
  | DeleteRegistration string "unit awaited" remote_reads
  | UpdateCategoryImage string string "unit awaited" remote_reads
  | UpdateCategoryFees string real real bool "unit awaited" remote_reads

fun perform :: "action \<Rightarrow> world \<Rightarrow> world" where
  "perform (Refresh rs) w = snd (fetchData rs w)"
| "perform (CreateRegistration d a rs) w = snd (createRegistration d a rs w)"
| "perform (UpdateRegistrationStatus rid st u now a rs) w =
     snd (updateRegistrationStatus rid st u now a rs w)"
| "perform (DeleteRegistration rid a rs) w = snd (deleteRegistration rid a rs w)"
| "perform (UpdateCategoryImage n url a rs) w = snd (updateCategoryImage n url a rs w)"
| "perform (UpdateCategoryFees n af off ho a rs) w = snd (updateCategoryFees n af off ho a rs w)"

fun run :: "action list \<Rightarrow> world \<Rightarrow> world" where
  "run [] w = w"
| "run (a # as) w = run as (perform a w)"

section \<open>Reading answers and requests\<close>

text \<open>A request failed: its promise rejected, or its response carries an error.\<close>

definition failed :: "'a awaited \<Rightarrow> bool" where
  "failed a = (case a of Rejected e \<Rightarrow> True | Resolved r \<Rightarrow> error r \<noteq> None)"

definition succeeded :: "'a awaited \<Rightarrow> bool" where
  "succeeded a = (\<not> failed a)"

text \<open>The rows a read delivered (none when it delivered \<open>null\<close>).\<close>

definition rows :: "'a list awaited \<Rightarrow> 'a list" where
  "rows a = (case a of Rejected e \<Rightarrow> [] | Resolved r \<Rightarrow> or_empty (data r))"

definition all_succeeded :: "remote_reads \<Rightarrow> bool" where
  "all_succeeded rs \<longleftrightarrow>
     succeeded (categoriesRead rs) \<and> succeeded (panchayathsRead rs) \<and>
     succeeded (announcementsRead rs) \<and> succeeded (galleryRead rs) \<and>
     succeeded (registrationsRead rs) \<and> succeeded (notificationsRead rs)"

text \<open>The table a request names.\<close>

fun table_of :: "query \<Rightarrow> string option" where
  "table_of [] = None"
| "table_of (From t # q) = Some t"
| "table_of (c # q) = table_of q"

text \<open>The equality filters of a request, in the order written.\<close>

fun eq_filters :: "query \<Rightarrow> (string \<times> jsval) list" where
  "eq_filters [] = []"
| "eq_filters (Eq c v # q) = (c, v) # eq_filters q"
| "eq_filters (b # q) = eq_filters q"

text \<open>
  Modelled from the spec: the direction of an \<open>order\<close> call without options. The client
  library is not among the sources; section 4.1 reads \<open>.order('name')\<close> as ascending.
\<close>

definition ascending :: "bool option \<Rightarrow> bool" where
  "ascending opt = (case opt of None \<Rightarrow> True | Some b \<Rightarrow> b)"

text \<open>The sort keys of a request, each with \<open>True\<close> for ascending.\<close>

fun order_by :: "query \<Rightarrow> (string \<times> bool) list" where
  "order_by [] = []"
| "order_by (Order c opt # q) = (c, ascending opt) # order_by q"
| "order_by (b # q) = order_by q"

text \<open>A request that writes: it inserts, updates or deletes.\<close>

fun writes :: "query \<Rightarrow> bool" where
  "writes [] = False"
| "writes (Insert rs # q) = True"
| "writes (Update p # q) = True"
| "writes (Delete # q) = True"
| "writes (b # q) = writes q"

text \<open>The rows a request inserts, and the object it updates with.\<close>

fun inserted :: "query \<Rightarrow> registration_data list" where
  "inserted [] = []"
| "inserted (Insert rs # q) = rs"
| "inserted (b # q) = inserted q"

fun patch_of :: "query \<Rightarrow> (string \<times> jsval) list" where
  "patch_of [] = []"
| "patch_of (Update p # q) = p"
| "patch_of (b # q) = patch_of q"

section \<open>The remote side's contract\<close>

text \<open>
  Modelled from the spec: \<open>insert(record) -> record or error\<close> (section 6). The remote
  client is not among the sources. A resolved answer carries exactly one of data and
  error.
\<close>

definition well_formed :: "'a awaited \<Rightarrow> bool" where
  "well_formed a =
     (case a of Rejected e \<Rightarrow> True | Resolved r \<Rightarrow> (data r = None) = (error r \<noteq> None))"

text \<open>
  Modelled from the spec: the record an insert answers with is the inserted record with
  the server-assigned id and timestamp added (sections 4.1 and 8). Stated between a
  request and its answer: the row that comes back, without the three fields the server
  owns, is the one row the request inserted.
\<close>

definition honours_insert :: "query \<Rightarrow> Registration awaited \<Rightarrow> bool" where
  "honours_insert q a =
     (case a of
        Rejected e \<Rightarrow> True
      | Resolved r \<Rightarrow> (case data r of
                         None \<Rightarrow> True
                       | Some row \<Rightarrow> inserted q = [registration_data.truncate row]))"

text \<open>
  Modelled from the spec: \<open>update(filter, patch) -> ok or error\<close> (section 6). A remote
  row is an object, here its list of columns and values. An update writes the columns of
  its object into every row that passes all its filters, and leaves the other rows as
  they are.
\<close>

type_synonym row = "(string \<times> jsval) list"

text \<open>Modelled from the spec: writing one column of a remote row (the remote store is
  not among the sources).\<close>

fun set_column :: "string \<Rightarrow> jsval \<Rightarrow> row \<Rightarrow> row" where
  "set_column c v [] = [(c, v)]"
| "set_column c v ((c', v') # r) =
     (if c' = c then (c, v) # r else (c', v') # set_column c v r)"

text \<open>Modelled from the spec: writing the columns of a patch into a remote row, in the
  order of the patch.\<close>

fun apply_patch :: "(string \<times> jsval) list \<Rightarrow> row \<Rightarrow> row" where
  "apply_patch [] r = r"
| "apply_patch ((c, v) # p) r = apply_patch p (set_column c v r)"

text \<open>Modelled from the spec: a remote row passes a list of equality filters when it
  holds the given value in each of the given columns.\<close>

definition passes :: "(string \<times> jsval) list \<Rightarrow> row \<Rightarrow> bool" where
  "passes fs r = list_all (\<lambda>(c, v). map_of r c = Some v) fs"

text \<open>Modelled from the spec: the remote table after \<open>update(filter, patch)\<close>.\<close>

definition remote_update :: "query \<Rightarrow> row list \<Rightarrow> row list" where
  "remote_update q tbl =
     map (\<lambda>r. if passes (eq_filters q) r then apply_patch (patch_of q) r else r) tbl"

section \<open>The authentication context\<close>

text \<open>
  The session object of an event, of which the provider reads \<open>user\<close> only (\<open>None\<close>
  where the property is missing), and the \<open>data\<close> object of \<open>getSession\<close>. The type of
  users is left open.
\<close>

record 'u session =
  user :: "'u option"

record 'u session_data =
  session :: "'u session option"

text \<open>\<open>session?.user ?? null\<close> and \<open>data?.session?.user ?? null\<close>\<close>

definition session_user :: "'u session option \<Rightarrow> 'u option" where
  "session_user s = (case s of None \<Rightarrow> None | Some x \<Rightarrow> session.user x)"

definition loaded_user :: "'u session_data option \<Rightarrow> 'u option" where
  "loaded_user d = (case d of None \<Rightarrow> None | Some x \<Rightarrow> session_user (session x))"

text \<open>Which of the provider's two callbacks ran.\<close>

datatype callback = SessionLoaded | AuthStateChanged

text \<open>
  The provider's \<open>useState\<close> cell, and what its effect holds at the remote client: the
  calls of \<open>getSession\<close> made, whether the promise of the last one is still open, and
  whether the listener passed to \<open>onAuthStateChange\<close> is subscribed. \<open>callbacks\<close> logs
  every run of a callback.
\<close>

record 'u auth_world =
  user :: "'u option"
  getSession_calls :: nat
  session_pending :: bool
  subscribed :: bool
  callbacks :: "callback list"

definition initial_auth :: "'u auth_world" where
  "initial_auth =
     \<lparr>user = None, getSession_calls = 0, session_pending = False, subscribed = False,
      callbacks = []\<rparr>"

definition setUser :: "'u option \<Rightarrow> 'u auth_world \<Rightarrow> 'u auth_world" where
  "setUser u w = w\<lparr>user := u\<rparr>"

text \<open>
  The body of the effect, run on mount: it calls \<open>getSession\<close>, attaches the \<open>then\<close>
  callback, and subscribes the listener.
\<close>

definition mount :: "'u auth_world \<Rightarrow> 'u auth_world" where
  "mount w =
     w\<lparr>getSession_calls := getSession_calls w + 1, session_pending := True,
       subscribed := True\<rparr>"

text \<open>The function the effect returns, run on teardown: \<open>listener.subscription.unsubscribe()\<close>.\<close>

definition unmount :: "'u auth_world \<Rightarrow> 'u auth_world" where
  "unmount w = w\<lparr>subscribed := False\<rparr>"

text \<open>
  What the remote client can do to the provider: settle the \<open>getSession\<close> promise, or
  emit a session change \<open>(_event, session)\<close>.
\<close>

datatype 'u auth_event =
    SessionResolved "'u session_data response"
  | SessionRejected
  | AuthStateChange string "'u session option"

text \<open>
  Modelled from the spec: the session API of the remote client (section 6),
  \<open>getCurrentSession() -> session or none\<close> and
  \<open>onSessionChange(callback) -> subscription handle\<close>. The client is not among the
  sources. A promise settles once and runs the \<open>then\<close> callback when it resolves; a
  session change runs the listener while its subscription is held, and nothing after
  the release. The callbacks themselves are the provider's.
\<close>

fun deliver :: "'u auth_event \<Rightarrow> 'u auth_world \<Rightarrow> 'u auth_world" where
  "deliver (SessionResolved r) w =
     (if session_pending w
      then setUser (loaded_user (data r))
             (w\<lparr>session_pending := False, callbacks := callbacks w @ [SessionLoaded]\<rparr>)
      else w)"
| "deliver SessionRejected w = w\<lparr>session_pending := False\<rparr>"
| "deliver (AuthStateChange ev s) w =
     (if subscribed w
      then setUser (session_user s) (w\<lparr>callbacks := callbacks w @ [AuthStateChanged]\<rparr>)
      else w)"

fun deliver_all :: "'u auth_event list \<Rightarrow> 'u auth_world \<Rightarrow> 'u auth_world" where
  "deliver_all [] w = w"
| "deliver_all (e # es) w = deliver_all es (deliver e w)"

text \<open>The session changes among a list of events.\<close>

fun session_change :: "'u auth_event \<Rightarrow> bool" where
  "session_change (AuthStateChange ev s) = True"
| "session_change e = False"

text \<open>
  The values a caller of \<open>useAuth\<close> can get: \<open>null\<close>, a user, or an object. The
  provider passes \<open>{ user }\<close> down; \<open>createContext(null)\<close> makes \<open>null\<close> the default.
\<close>

datatype 'u js = JNull | JUser 'u | JObject "(string \<times> 'u js) list"

definition user_value :: "'u option \<Rightarrow> 'u js" where
  "user_value u = (case u of None \<Rightarrow> JNull | Some x \<Rightarrow> JUser x)"

definition provider_value :: "'u auth_world \<Rightarrow> 'u js" where
  "provider_value w = JObject [(''user'', user_value (user w))]"

definition AuthContext :: "'u js" where
  "AuthContext = JNull"

text \<open>
  Modelled from the spec: the context mechanism (section 4.2); React is not among the
  sources. \<open>useContext\<close> gives the value of the nearest provider above the caller, and
  the default of the context where there is none.
\<close>

definition useContext :: "'u js \<Rightarrow> 'u js option \<Rightarrow> 'u js" where
  "useContext dflt provided = (case provided of None \<Rightarrow> dflt | Some v \<Rightarrow> v)"

text \<open>\<open>useAuth\<close>, given the provider above the caller if there is one.\<close>

definition useAuth :: "'u auth_world option \<Rightarrow> 'u js" where
  "useAuth provider = useContext AuthContext (map_option provider_value provider)"

text \<open>The data of an answer (\<open>None\<close> for a rejected promise, as for \<open>null\<close>).\<close>

definition datum :: "'a awaited \<Rightarrow> 'a option" where
  "datum a = (case a of Rejected e \<Rightarrow> None | Resolved r \<Rightarrow> data r)"

section \<open>Properties of statements\<close>

text \<open>A statement that keeps a property of the world.\<close>

definition preserves :: "(world \<Rightarrow> bool) \<Rightarrow> 'a prog \<Rightarrow> bool" where
  "preserves P m \<longleftrightarrow> (\<forall>w. P w \<longrightarrow> P (snd (m w)))"

text \<open>
  A statement whose completion and whose effect on the hook's state depend on the
  hook's state only, not on the logs.
\<close>

definition hook_local :: "'a prog \<Rightarrow> bool" where
  "hook_local m \<longleftrightarrow>
     (\<forall>w1 w2. hook w1 = hook w2 \<longrightarrow>
        fst (m w1) = fst (m w2) \<and> hook (snd (m w1)) = hook (snd (m w2)))"

section \<open>Sample inputs\<close>

text \<open>An answer with data, and an answer with an error.\<close>

definition answered :: "'a \<Rightarrow> 'a awaited" where
  "answered x = Resolved \<lparr>data = Some x, error = None\<rparr>"

definition refused :: "string \<Rightarrow> 'a awaited" where
  "refused msg = Resolved \<lparr>data = None, error = Some (RemoteError msg)\<rparr>"

definition sample_notification :: "string \<Rightarrow> string \<Rightarrow> PushNotification" where
  "sample_notification n audience =
     \<lparr>PushNotification.id = n, title = ''Camp'', content = ''Saturday'',
      target_audience = audience, target_value = None, scheduled_at = None, sent_at = None,
      is_active = True, created_at = ''2024-05-01T10:00:00.000Z''\<rparr>"

definition sample_category :: "string \<Rightarrow> Category" where
  "sample_category n =
     \<lparr>Category.id = ''c-'' @ n, name = n, label = n, actual_fee = 500, offer_fee = 300,
      has_offer = True, image_url = None\<rparr>"

definition sample_panchayath :: Panchayath where
  "sample_panchayath =
     \<lparr>Panchayath.id = ''p1'', malayalam_name = ''Kottakkal'', english_name = ''Kottakkal'',
      pincode = Some ''676503'', district = ''Malappuram''\<rparr>"

definition sample_data :: registration_data where
  "sample_data =
     \<lparr>full_name = ''Asha'', mobile_number = ''9000000001'', whatsapp_number = ''9000000001'',
      address = ''12 Mill Road'', panchayath_details = ''Kottakkal'', category = ''farming'',
      status = pending, approved_at = None, unique_id = None\<rparr>"

definition sample_registration :: Registration where
  "sample_registration =
     \<lparr>full_name = ''Asha'', mobile_number = ''9000000001'', whatsapp_number = ''9000000001'',
      address = ''12 Mill Road'', panchayath_details = ''Kottakkal'', category = ''farming'',
      status = pending, approved_at = None, unique_id = None,
      Registration.id = ''r1'', submitted_at = ''2024-05-02T08:30:00.000Z'',
      user_id = None\<rparr>"

text \<open>Six reads that all succeed, with the given notification rows.\<close>

definition sample_reads :: "PushNotification list \<Rightarrow> remote_reads" where
  "sample_reads ns =
     \<lparr>categoriesRead = answered [sample_category ''farming'', sample_category ''tailoring''],
      panchayathsRead = answered [sample_panchayath],
      announcementsRead = answered [],
      galleryRead = answered [],
      registrationsRead = answered [sample_registration],
      notificationsRead = answered ns\<rparr>"

text \<open>A remote table of two registrations, as rows.\<close>

definition sample_table :: "row list" where
  "sample_table =
     [[(''id'', JString ''r1''), (''full_name'', JString ''Asha''),
       (''status'', JString ''pending'')],
      [(''id'', JString ''r2''), (''full_name'', JString ''Binu''),
       (''status'', JString ''pending'')]]"

text \<open>Six reads of which the k-th is answered with an error (none for k outside 1..6).\<close>

definition failing_reads :: "nat \<Rightarrow> remote_reads" where
  "failing_reads k =
     \<lparr>categoriesRead = (if k = 1 then refused ''timeout'' else answered [sample_category ''farming'']),
      panchayathsRead = (if k = 2 then refused ''timeout'' else answered [sample_panchayath]),
      announcementsRead = (if k = 3 then refused ''timeout'' else answered []),
      galleryRead = (if k = 4 then refused ''timeout'' else answered []),
      registrationsRead = (if k = 5 then refused ''timeout'' else answered []),
      notificationsRead =
        (if k = 6 then refused ''timeout'' else answered [sample_notification ''n1'' ''admin''])\<rparr>"

text \<open>A world left by earlier calls, with a row in three of the collections.\<close>

definition sample_world :: world where
  "sample_world =
     \<lparr>hook = \<lparr>registrations = [sample_registration], categories = [sample_category ''weaving''],
              panchayaths = [], announcements = [], photoGallery = [],
              notifications = [sample_notification ''n0'' ''all''], loading = False\<rparr>,
      requests = [], console = [], toasts = []\<rparr>"

text \<open>The answer of \<open>getSession\<close> when alice is signed in.\<close>

definition sample_session :: "string session_data response" where
  "sample_session =
     \<lparr>data = Some \<lparr>session = Some \<lparr>session.user = Some ''alice''\<rparr>\<rparr>, error = None\<rparr>"

section \<open>Lemmas on statements\<close>

subsection \<open>Running the statements\<close>

lemma succeeded_Resolved: "succeeded a \<Longrightarrow> \<exists>r. a = Resolved r \<and> error r = None"
  by (cases a) (simp_all add: succeeded_def failed_def)

lemma failed_cases:
  "failed a \<Longrightarrow> (\<exists>e. a = Rejected e) \<or> (\<exists>r e. a = Resolved r \<and> error r = Some e)"
  by (cases a) (auto simp: failed_def)

lemma rows_Resolved: "rows (Resolved r) = or_empty (data r)"
  by (simp add: rows_def)

lemma bindP_await_Resolved:
  "bindP (await q (Resolved r)) f w = f r (w\<lparr>requests := requests w @ [q]\<rparr>)"
  by (simp add: bindP_def await_def)

lemma bindP_await_Rejected:
  "bindP (await q (Rejected e)) f w = (Thrown e, w\<lparr>requests := requests w @ [q]\<rparr>)"
  by (simp add: bindP_def await_def)

lemma seq_throw_if_None: "seq (throw_if None) n w = n w"
  by (simp add: seq_def bindP_def throw_if_def return_def)

lemma seq_throw_if_Some: "seq (throw_if (Some e)) n w = (Thrown e, w)"
  by (simp add: seq_def bindP_def throw_if_def throw_def)

lemma seq_toast: "seq (toast t) n w = n (w\<lparr>toasts := toasts w @ [t]\<rparr>)"
  by (simp add: seq_def bindP_def toast_def)

lemma seq_console_error:
  "seq (console_error msg e) n w = n (w\<lparr>console := console w @ [(msg, e)]\<rparr>)"
  by (simp add: seq_def bindP_def console_error_def)

lemma seq_setLoading: "seq (setLoading b) n w = n (w\<lparr>hook := (hook w)\<lparr>loading := b\<rparr>\<rparr>)"
  by (simp add: seq_def bindP_def setLoading_def)

lemma seq_setCategories:
  "seq (setCategories v) n w = n (w\<lparr>hook := (hook w)\<lparr>categories := v\<rparr>\<rparr>)"
  by (simp add: seq_def bindP_def setCategories_def)

lemma seq_setPanchayaths:
  "seq (setPanchayaths v) n w = n (w\<lparr>hook := (hook w)\<lparr>panchayaths := v\<rparr>\<rparr>)"
  by (simp add: seq_def bindP_def setPanchayaths_def)

lemma seq_setAnnouncements:
  "seq (setAnnouncements v) n w = n (w\<lparr>hook := (hook w)\<lparr>announcements := v\<rparr>\<rparr>)"
  by (simp add: seq_def bindP_def setAnnouncements_def)

lemma seq_setPhotoGallery:
  "seq (setPhotoGallery v) n w = n (w\<lparr>hook := (hook w)\<lparr>photoGallery := v\<rparr>\<rparr>)"
  by (simp add: seq_def bindP_def setPhotoGallery_def)

lemma seq_setRegistrations:
  "seq (setRegistrations v) n w = n (w\<lparr>hook := (hook w)\<lparr>registrations := v\<rparr>\<rparr>)"
  by (simp add: seq_def bindP_def setRegistrations_def)

lemma setLoading_run: "setLoading b w = (Returned (), w\<lparr>hook := (hook w)\<lparr>loading := b\<rparr>\<rparr>)"
  by (simp add: setLoading_def)

lemma setNotifications_run:
  "setNotifications v w = (Returned (), w\<lparr>hook := (hook w)\<lparr>notifications := v\<rparr>\<rparr>)"
  by (simp add: setNotifications_def)

lemma toast_run: "toast t w = (Returned (), w\<lparr>toasts := toasts w @ [t]\<rparr>)"
  by (simp add: toast_def)

lemma return_run: "return x w = (Returned x, w)"
  by (simp add: return_def)

lemmas run_defs = bindP_await_Resolved bindP_await_Rejected seq_throw_if_None seq_throw_if_Some
  seq_toast seq_console_error seq_setLoading seq_setCategories seq_setPanchayaths
  seq_setAnnouncements seq_setPhotoGallery seq_setRegistrations
  try_catch_def try_catch_finally_def toast_run setLoading_run setNotifications_run return_run
  rows_Resolved

lemma fetchData_success:
  assumes "all_succeeded rs"
  shows "snd (fetchData rs w) =
           w\<lparr>hook := \<lparr>registrations = rows (registrationsRead rs),
                      categories = rows (categoriesRead rs),
                      panchayaths = rows (panchayathsRead rs),
                      announcements = rows (announcementsRead rs),
                      photoGallery = rows (galleryRead rs),
                      notifications = filter valid_target_audience (rows (notificationsRead rs)),
                      loading = False\<rparr>,
             requests := requests w @ [categoriesQuery, panchayathsQuery, announcementsQuery,
                                       galleryQuery, registrationsQuery, notificationsQuery]\<rparr>"
proof -
  from assms obtain r1 r2 r3 r4 r5 r6 where
    "categoriesRead rs = Resolved r1" "error r1 = None"
    "panchayathsRead rs = Resolved r2" "error r2 = None"
    "announcementsRead rs = Resolved r3" "error r3 = None"
    "galleryRead rs = Resolved r4" "error r4 = None"
    "registrationsRead rs = Resolved r5" "error r5 = None"
    "notificationsRead rs = Resolved r6" "error r6 = None"
    unfolding all_succeeded_def by (meson succeeded_Resolved)
  then show ?thesis
    by (simp add: fetchData_def run_defs)
qed

subsection \<open>Properties kept by every statement\<close>

lemma preserves_bindP:
  assumes "preserves P m" and "\<And>x. preserves P (f x)"
  shows "preserves P (bindP m f)"
  unfolding preserves_def bindP_def
proof (intro allI impI)
  fix w assume "P w"
  with assms(1) have m: "P (snd (m w))" by (simp add: preserves_def)
  show "P (snd (case m w of (Returned x, w') \<Rightarrow> f x w' | (Thrown e, w') \<Rightarrow> (Thrown e, w')))"
  proof (cases "m w")
    case (Pair c w')
    with m have "P w'" by simp
    with assms(2) Pair show ?thesis
      by (cases c) (simp_all add: preserves_def)
  qed
qed

lemma preserves_seq:
  "preserves P m \<Longrightarrow> preserves P n \<Longrightarrow> preserves P (seq m n)"
  by (simp add: seq_def preserves_bindP)

lemma preserves_try_catch:
  assumes "preserves P body" and "\<And>e. preserves P (handler e)"
  shows "preserves P (try_catch body handler)"
  unfolding preserves_def try_catch_def
proof (intro allI impI)
  fix w assume "P w"
  with assms(1) have b: "P (snd (body w))" by (simp add: preserves_def)
  show "P (snd (case body w of (Returned x, w') \<Rightarrow> (Returned x, w')
                | (Thrown e, w') \<Rightarrow> handler e w'))"
  proof (cases "body w")
    case (Pair c w')
    with b have "P w'" by simp
    with assms(2) Pair show ?thesis
      by (cases c) (simp_all add: preserves_def)
  qed
qed

lemma preserves_try_catch_finally:
  assumes "preserves P body" and "\<And>e. preserves P (handler e)" and "preserves P fin"
  shows "preserves P (try_catch_finally body handler fin)"
  unfolding preserves_def try_catch_finally_def
proof (intro allI impI)
  fix w assume "P w"
  with preserves_try_catch [OF assms(1,2)] have t: "P (snd (try_catch body handler w))"
    by (simp add: preserves_def)
  show "P (snd (case try_catch body handler w of
                  (c, w') \<Rightarrow> (case fin w' of (Returned _, w'') \<Rightarrow> (c, w'')
                             | (Thrown e, w'') \<Rightarrow> (Thrown e, w''))))"
  proof (cases "try_catch body handler w")
    case (Pair c w')
    with t have "P w'" by simp
    with assms(3) have "P (snd (fin w'))" by (simp add: preserves_def)
    with Pair show ?thesis
      by (cases "fin w'") (simp split: completion.splits)
  qed
qed

lemma preserves_throw_if: "preserves P (throw_if err)"
  by (simp add: preserves_def throw_if_def throw_def return_def split: option.splits)

lemma preserves_return: "preserves P (return x)"
  by (simp add: preserves_def return_def)

lemmas preserves_intros = preserves_try_catch_finally preserves_try_catch preserves_bindP
  preserves_seq preserves_throw_if preserves_return

lemma fetchData_preserves:
  assumes "\<And>q a. \<not> writes q \<Longrightarrow> preserves P (await q (a :: Category list awaited))"
    and "\<And>q a. \<not> writes q \<Longrightarrow> preserves P (await q (a :: Panchayath list awaited))"
    and "\<And>q a. \<not> writes q \<Longrightarrow> preserves P (await q (a :: Announcement list awaited))"
    and "\<And>q a. \<not> writes q \<Longrightarrow> preserves P (await q (a :: PhotoGalleryItem list awaited))"
    and "\<And>q a. \<not> writes q \<Longrightarrow> preserves P (await q (a :: Registration list awaited))"
    and "\<And>q a. \<not> writes q \<Longrightarrow> preserves P (await q (a :: PushNotification list awaited))"
    and "\<And>b. preserves P (setLoading b)"
    and "\<And>v. preserves P (setCategories v)"
    and "\<And>v. preserves P (setPanchayaths v)"
    and "\<And>v. preserves P (setAnnouncements v)"
    and "\<And>v. preserves P (setPhotoGallery v)"
    and "\<And>v. preserves P (setRegistrations v)"
    and "\<And>v. list_all valid_target_audience v \<Longrightarrow> preserves P (setNotifications v)"
    and "\<And>msg e. preserves P (console_error msg e)"
    and "\<And>t. preserves P (toast t)"
  shows "preserves P (fetchData rs)"
  unfolding fetchData_def
  by (intro preserves_intros assms)
     (simp_all add: categoriesQuery_def panchayathsQuery_def announcementsQuery_def
        galleryQuery_def registrationsQuery_def notificationsQuery_def list_all_iff)

subsection \<open>Unfolding the sample inputs\<close>

lemmas sample_defs = answered_def refused_def sample_reads_def all_succeeded_def succeeded_def
  failed_def

subsection \<open>fetchData with a failing read\<close>

lemma fetchData_fails_1:
  assumes "failed (categoriesRead rs)"
  shows "hook (snd (fetchData rs w)) = (hook w)\<lparr>loading := False\<rparr>"
  using failed_cases [OF assms]
  by (auto simp add: fetchData_def run_defs)

lemma fetchData_fails_2:
  assumes "succeeded (categoriesRead rs)" and "failed (panchayathsRead rs)"
  shows "hook (snd (fetchData rs w)) =
           (hook w)\<lparr>categories := rows (categoriesRead rs), loading := False\<rparr>"
proof -
  from assms(1) obtain r1 where "categoriesRead rs = Resolved r1" "error r1 = None"
    by (meson succeeded_Resolved)
  with failed_cases [OF assms(2)] show ?thesis
    by (auto simp add: fetchData_def run_defs)
qed

lemma fetchData_fails_3:
  assumes "succeeded (categoriesRead rs)" and "succeeded (panchayathsRead rs)"
    and "failed (announcementsRead rs)"
  shows "hook (snd (fetchData rs w)) =
           (hook w)\<lparr>categories := rows (categoriesRead rs),
                     panchayaths := rows (panchayathsRead rs), loading := False\<rparr>"
proof -
  from assms(1,2) obtain r1 r2 where
    "categoriesRead rs = Resolved r1" "error r1 = None"
    "panchayathsRead rs = Resolved r2" "error r2 = None"
    by (meson succeeded_Resolved)
  with failed_cases [OF assms(3)] show ?thesis
    by (auto simp add: fetchData_def run_defs)
qed

lemma fetchData_fails_4:
  assumes "succeeded (categoriesRead rs)" and "succeeded (panchayathsRead rs)"
    and "succeeded (announcementsRead rs)" and "failed (galleryRead rs)"
  shows "hook (snd (fetchData rs w)) =
           (hook w)\<lparr>categories := rows (categoriesRead rs),
                     panchayaths := rows (panchayathsRead rs),
                     announcements := rows (announcementsRead rs), loading := False\<rparr>"
proof -
  from assms(1,2,3) obtain r1 r2 r3 where
    "categoriesRead rs = Resolved r1" "error r1 = None"
    "panchayathsRead rs = Resolved r2" "error r2 = None"
    "announcementsRead rs = Resolved r3" "error r3 = None"
    by (meson succeeded_Resolved)
  with failed_cases [OF assms(4)] show ?thesis
    by (auto simp add: fetchData_def run_defs)
qed

lemma fetchData_fails_5:
  assumes "succeeded (categoriesRead rs)" and "succeeded (panchayathsRead rs)"
    and "succeeded (announcementsRead rs)" and "succeeded (galleryRead rs)"
    and "failed (registrationsRead rs)"
  shows "hook (snd (fetchData rs w)) =
           (hook w)\<lparr>categories := rows (categoriesRead rs),
                     panchayaths := rows (panchayathsRead rs),
                     announcements := rows (announcementsRead rs),
                     photoGallery := rows (galleryRead rs), loading := False\<rparr>"
proof -
  from assms(1,2,3,4) obtain r1 r2 r3 r4 where
    "categoriesRead rs = Resolved r1" "error r1 = None"
    "panchayathsRead rs = Resolved r2" "error r2 = None"
    "announcementsRead rs = Resolved r3" "error r3 = None"
    "galleryRead rs = Resolved r4" "error r4 = None"
    by (meson succeeded_Resolved)
  with failed_cases [OF assms(5)] show ?thesis
    by (auto simp add: fetchData_def run_defs)
qed

lemma fetchData_fails_6:
  assumes "succeeded (categoriesRead rs)" and "succeeded (panchayathsRead rs)"
    and "succeeded (announcementsRead rs)" and "succeeded (galleryRead rs)"
    and "succeeded (registrationsRead rs)" and "failed (notificationsRead rs)"
  shows "hook (snd (fetchData rs w)) =
           (hook w)\<lparr>categories := rows (categoriesRead rs),
                     panchayaths := rows (panchayathsRead rs),
                     announcements := rows (announcementsRead rs),
                     photoGallery := rows (galleryRead rs),
                     registrations := rows (registrationsRead rs), loading := False\<rparr>"
proof -
  from assms(1,2,3,4,5) obtain r1 r2 r3 r4 r5 where
    "categoriesRead rs = Resolved r1" "error r1 = None"
    "panchayathsRead rs = Resolved r2" "error r2 = None"
    "announcementsRead rs = Resolved r3" "error r3 = None"
    "galleryRead rs = Resolved r4" "error r4 = None"
    "registrationsRead rs = Resolved r5" "error r5 = None"
    by (meson succeeded_Resolved)
  with failed_cases [OF assms(6)] show ?thesis
    by (auto simp add: fetchData_def run_defs)
qed

lemma try_catch_finally_post:
  assumes "\<And>w'. Q (snd (fin w'))"
  shows "Q (snd (try_catch_finally body handler fin w))"
proof (cases "try_catch body handler w")
  case (Pair c w')
  from assms have "Q (snd (fin w'))" .
  with Pair show ?thesis
    by (cases "fin w'") (simp add: try_catch_finally_def split: completion.splits)
qed

lemma fetchData_loading: "loading (hook (snd (fetchData rs w))) = False"
  unfolding fetchData_def
  by (rule try_catch_finally_post) (simp add: setLoading_def)

subsection \<open>fetchData never throws\<close>

lemma try_catch_finally_unit:
  fixes body :: "unit prog"
  assumes "\<And>e w. fst (handler e w) = Returned ()" and "\<And>w. fst (fin w) = Returned ()"
  shows "fst (try_catch_finally body handler fin w) = Returned ()"
proof -
  obtain c w' where t: "try_catch body handler w = (c, w')"
    by (cases "try_catch body handler w")
  have "c = Returned ()"
  proof (cases "body w")
    case (Pair b v)
    show ?thesis
    proof (cases b)
      case (Returned x)
      with Pair t show ?thesis by (simp add: try_catch_def)
    next
      case (Thrown e)
      with Pair t assms(1) [of e v] show ?thesis by (simp add: try_catch_def)
    qed
  qed
  moreover obtain w'' where "fin w' = (Returned (), w'')"
    using assms(2) [of w'] by (cases "fin w'") simp
  ultimately show ?thesis
    using t by (simp add: try_catch_finally_def)
qed

lemma fetchData_returns: "fst (fetchData rs w) = Returned ()"
  unfolding fetchData_def
  by (rule try_catch_finally_unit) (simp_all add: seq_console_error toast_run setLoading_run)

lemma seq_fetchData: "seq (fetchData rs) n w = n (snd (fetchData rs w))"
  using fetchData_returns [of rs w]
  by (cases "fetchData rs w") (simp add: seq_def bindP_def)

lemmas mutator_defs = run_defs seq_fetchData

subsection \<open>The hook state after a call depends on the hook state before it\<close>

lemma hook_localD:
  "hook_local m \<Longrightarrow> hook w1 = hook w2 \<Longrightarrow>
   fst (m w1) = fst (m w2) \<and> hook (snd (m w1)) = hook (snd (m w2))"
  unfolding hook_local_def by blast

lemma hook_local_bindP:
  assumes "hook_local m" and "\<And>x. hook_local (f x)"
  shows "hook_local (bindP m f)"
  unfolding hook_local_def
proof (intro allI impI)
  fix w1 w2 :: world
  assume eq: "hook w1 = hook w2"
  obtain c v1 where m1: "m w1 = (c, v1)" by (cases "m w1")
  with hook_localD [OF assms(1) eq] obtain v2 where m2: "m w2 = (c, v2)" and v: "hook v1 = hook v2"
    by (cases "m w2") simp
  show "fst (bindP m f w1) = fst (bindP m f w2) \<and>
        hook (snd (bindP m f w1)) = hook (snd (bindP m f w2))"
  proof (cases c)
    case (Returned x)
    with hook_localD [OF assms(2) [of x] v] m1 m2 show ?thesis
      by (simp add: bindP_def)
  next
    case (Thrown e)
    with v m1 m2 show ?thesis
      by (simp add: bindP_def)
  qed
qed

lemma hook_local_seq: "hook_local m \<Longrightarrow> hook_local n \<Longrightarrow> hook_local (seq m n)"
  by (simp add: seq_def hook_local_bindP)

lemma hook_local_try_catch:
  assumes "hook_local body" and "\<And>e. hook_local (handler e)"
  shows "hook_local (try_catch body handler)"
  unfolding hook_local_def
proof (intro allI impI)
  fix w1 w2 :: world
  assume eq: "hook w1 = hook w2"
  obtain c v1 where m1: "body w1 = (c, v1)" by (cases "body w1")
  with hook_localD [OF assms(1) eq] obtain v2 where m2: "body w2 = (c, v2)"
    and v: "hook v1 = hook v2"
    by (cases "body w2") simp
  show "fst (try_catch body handler w1) = fst (try_catch body handler w2) \<and>
        hook (snd (try_catch body handler w1)) = hook (snd (try_catch body handler w2))"
  proof (cases c)
    case (Returned x)
    with v m1 m2 show ?thesis
      by (simp add: try_catch_def)
  next
    case (Thrown e)
    with hook_localD [OF assms(2) [of e] v] m1 m2 show ?thesis
      by (simp add: try_catch_def)
  qed
qed

lemma hook_local_try_catch_finally:
  assumes "hook_local body" and "\<And>e. hook_local (handler e)" and "hook_local fin"
  shows "hook_local (try_catch_finally body handler fin)"
  unfolding hook_local_def
proof (intro allI impI)
  fix w1 w2 :: world
  assume eq: "hook w1 = hook w2"
  let ?t = "try_catch body handler"
  have t: "hook_local ?t"
    by (rule hook_local_try_catch) (rule assms)+
  obtain c v1 where m1: "?t w1 = (c, v1)" by (cases "?t w1")
  with hook_localD [OF t eq] obtain v2 where m2: "?t w2 = (c, v2)" and v: "hook v1 = hook v2"
    by (cases "?t w2") simp
  obtain d u1 where f1: "fin v1 = (d, u1)" by (cases "fin v1")
  with hook_localD [OF assms(3) v] obtain u2 where f2: "fin v2 = (d, u2)"
    and u: "hook u1 = hook u2"
    by (cases "fin v2") simp
  from u m1 m2 f1 f2
  show "fst (try_catch_finally body handler fin w1) = fst (try_catch_finally body handler fin w2) \<and>
        hook (snd (try_catch_finally body handler fin w1)) =
        hook (snd (try_catch_finally body handler fin w2))"
    by (cases d) (simp_all add: try_catch_finally_def)
qed

lemma hook_local_leaves:
  "hook_local (await q a)" "hook_local (throw_if err)" "hook_local (return x)"
  "hook_local (console_error msg e)" "hook_local (toast t)" "hook_local (setLoading b)"
  "hook_local (setCategories cs)" "hook_local (setPanchayaths ps)"
  "hook_local (setAnnouncements ans)" "hook_local (setPhotoGallery gs)"
  "hook_local (setRegistrations regs)" "hook_local (setNotifications ns)"
  by (simp_all add: hook_local_def await_def throw_if_def throw_def return_def console_error_def
        toast_def setLoading_def setCategories_def setPanchayaths_def setAnnouncements_def
        setPhotoGallery_def setRegistrations_def setNotifications_def
      split: awaited.splits option.splits)

lemma fetchData_hook_local: "hook_local (fetchData rs)"
  unfolding fetchData_def
  by (intro hook_local_try_catch_finally hook_local_bindP hook_local_seq hook_local_leaves)

lemma fetchData_hook:
  "hook w1 = hook w2 \<Longrightarrow> hook (snd (fetchData rs w1)) = hook (snd (fetchData rs w2))"
  using hook_localD [OF fetchData_hook_local] by blast

subsection \<open>The mutators, by the answer to their write\<close>

lemma write_succeeded:
  assumes "answer = Resolved r" and "error r = None"
  shows "try_catch
           (bindP (await q answer) (\<lambda>res.
            seq (throw_if (error res)) (seq (toast t) (seq (fetchData rs) (return (g res))))))
           handler w =
         (Returned (g r),
          snd (fetchData rs (w\<lparr>requests := requests w @ [q], toasts := toasts w @ [t]\<rparr>)))"
  using assms by (simp add: try_catch_def mutator_defs)

lemma write_failed:
  assumes "failed answer"
  shows "\<exists>e. try_catch
           (bindP (await q answer) (\<lambda>res.
            seq (throw_if (error res)) (seq (toast t) (seq (fetchData rs) (return (g res))))))
           (\<lambda>error. seq (console_error msg error) (seq (toast t') (return v))) w =
         (Returned v,
          w\<lparr>requests := requests w @ [q], console := console w @ [(msg, e)],
            toasts := toasts w @ [t']\<rparr>)"
  using failed_cases [OF assms]
  by (auto simp add: try_catch_def mutator_defs)

lemma createRegistration_succeeded:
  assumes "succeeded answer"
  shows "createRegistration d answer rs w =
         (Returned (datum answer),
          snd (fetchData rs
                (w\<lparr>requests := requests w @ [insertQuery d],
                   toasts := toasts w @
                     [\<lparr>title = ''Registration Submitted'',
                       description = ''Your registration has been submitted successfully.'',
                       variant = None\<rparr>]\<rparr>)))"
proof -
  from assms obtain r where r: "answer = Resolved r" "error r = None"
    by (meson succeeded_Resolved)
  then have "datum answer = data r" by (simp add: datum_def)
  with write_succeeded [OF r, where g = data] show ?thesis
    unfolding createRegistration_def by simp
qed

lemma createRegistration_failed:
  assumes "failed answer"
  shows "fst (createRegistration d answer rs w) = Returned None \<and>
         hook (snd (createRegistration d answer rs w)) = hook w \<and>
         requests (snd (createRegistration d answer rs w)) = requests w @ [insertQuery d]"
proof -
  from write_failed [OF assms, where g = data] obtain e where
    "createRegistration d answer rs w =
       (Returned None,
        w\<lparr>requests := requests w @ [insertQuery d],
          console := console w @ [(''Error creating registration:'', e)],
          toasts := toasts w @
            [\<lparr>title = ''Error'',
              description = ''Failed to submit registration. Please try again.'',
              variant = Some ''destructive''\<rparr>]\<rparr>)"
    unfolding createRegistration_def by blast
  then show ?thesis by simp
qed

lemma updateRegistrationStatus_succeeded:
  assumes "succeeded answer"
  shows "updateRegistrationStatus rid st uniqueId now answer rs w =
         (Returned True,
          snd (fetchData rs
                (w\<lparr>requests := requests w @ [statusQuery rid st now uniqueId],
                   toasts := toasts w @
                     [\<lparr>title = ''Registration Updated'',
                       description = ''Registration has been '' @ status_text st @ ''.'',
                       variant = None\<rparr>]\<rparr>)))"
proof -
  from assms obtain r where r: "answer = Resolved r" "error r = None"
    by (meson succeeded_Resolved)
  from write_succeeded [OF r, where g = "\<lambda>_. True"] show ?thesis
    unfolding updateRegistrationStatus_def by simp
qed

lemma updateRegistrationStatus_failed:
  assumes "failed answer"
  shows "fst (updateRegistrationStatus rid st uniqueId now answer rs w) = Returned False \<and>
         hook (snd (updateRegistrationStatus rid st uniqueId now answer rs w)) = hook w \<and>
         requests (snd (updateRegistrationStatus rid st uniqueId now answer rs w)) =
           requests w @ [statusQuery rid st now uniqueId]"
proof -
  from write_failed [OF assms, where g = "\<lambda>_. True"] obtain e where
    "updateRegistrationStatus rid st uniqueId now answer rs w =
       (Returned False,
        w\<lparr>requests := requests w @ [statusQuery rid st now uniqueId],
          console := console w @ [(''Error updating registration:'', e)],
          toasts := toasts w @
            [\<lparr>title = ''Error'',
              description = ''Failed to update registration. Please try again.'',
              variant = Some ''destructive''\<rparr>]\<rparr>)"
    unfolding updateRegistrationStatus_def by blast
  then show ?thesis by simp
qed

lemma deleteRegistration_succeeded:
  assumes "succeeded answer"
  shows "deleteRegistration rid answer rs w =
         (Returned True,
          snd (fetchData rs
                (w\<lparr>requests := requests w @ [deleteQuery rid],
                   toasts := toasts w @
                     [\<lparr>title = ''Registration Deleted'',
                       description = ''Registration has been deleted successfully.'',
                       variant = None\<rparr>]\<rparr>)))"
proof -
  from assms obtain r where r: "answer = Resolved r" "error r = None"
    by (meson succeeded_Resolved)
  from write_succeeded [OF r, where g = "\<lambda>_. True"] show ?thesis
    unfolding deleteRegistration_def by simp
qed

lemma deleteRegistration_failed:
  assumes "failed answer"
  shows "fst (deleteRegistration rid answer rs w) = Returned False \<and>
         hook (snd (deleteRegistration rid answer rs w)) = hook w \<and>
         requests (snd (deleteRegistration rid answer rs w)) = requests w @ [deleteQuery rid]"
proof -
  from write_failed [OF assms, where g = "\<lambda>_. True"] obtain e where
    "deleteRegistration rid answer rs w =
       (Returned False,
        w\<lparr>requests := requests w @ [deleteQuery rid],
          console := console w @ [(''Error deleting registration:'', e)],
          toasts := toasts w @
            [\<lparr>title = ''Error'',
              description = ''Failed to delete registration. Please try again.'',
              variant = Some ''destructive''\<rparr>]\<rparr>)"
    unfolding deleteRegistration_def by blast
  then show ?thesis by simp
qed

lemma updateCategoryImage_succeeded:
  assumes "succeeded answer"
  shows "updateCategoryImage categoryName imageUrl answer rs w =
         (Returned True,
          snd (fetchData rs
                (w\<lparr>requests := requests w @ [imageQuery categoryName imageUrl],
                   toasts := toasts w @
                     [\<lparr>title = ''Category Updated'',
                       description = ''Category image has been updated successfully.'',
                       variant = None\<rparr>]\<rparr>)))"
proof -
  from assms obtain r where r: "answer = Resolved r" "error r = None"
    by (meson succeeded_Resolved)
  from write_succeeded [OF r, where g = "\<lambda>_. True"] show ?thesis
    unfolding updateCategoryImage_def by simp
qed

lemma updateCategoryImage_failed:
  assumes "failed answer"
  shows "fst (updateCategoryImage categoryName imageUrl answer rs w) = Returned False \<and>
         hook (snd (updateCategoryImage categoryName imageUrl answer rs w)) = hook w \<and>
         requests (snd (updateCategoryImage categoryName imageUrl answer rs w)) =
           requests w @ [imageQuery categoryName imageUrl]"
proof -
  from write_failed [OF assms, where g = "\<lambda>_. True"] obtain e where
    "updateCategoryImage categoryName imageUrl answer rs w =
       (Returned False,
        w\<lparr>requests := requests w @ [imageQuery categoryName imageUrl],
          console := console w @ [(''Error updating category image:'', e)],
          toasts := toasts w @
            [\<lparr>title = ''Error'',
              description = ''Failed to update category image. Please try again.'',
              variant = Some ''destructive''\<rparr>]\<rparr>)"
    unfolding updateCategoryImage_def by blast
  then show ?thesis by simp
qed

lemma updateCategoryFees_succeeded:
  assumes "succeeded answer"
  shows "updateCategoryFees categoryName actualFee offerFee hasOffer answer rs w =
         (Returned True,
          snd (fetchData rs
                (w\<lparr>requests := requests w @ [feesQuery categoryName actualFee offerFee hasOffer],
                   toasts := toasts w @
                     [\<lparr>title = ''Category Updated'',
                       description = ''Category fees have been updated successfully.'',
                       variant = None\<rparr>]\<rparr>)))"
proof -
  from assms obtain r where r: "answer = Resolved r" "error r = None"
    by (meson succeeded_Resolved)
  from write_succeeded [OF r, where g = "\<lambda>_. True"] show ?thesis
    unfolding updateCategoryFees_def by simp
qed

lemma updateCategoryFees_failed:
  assumes "failed answer"
  shows "fst (updateCategoryFees categoryName actualFee offerFee hasOffer answer rs w) =
           Returned False \<and>
         hook (snd (updateCategoryFees categoryName actualFee offerFee hasOffer answer rs w)) =
           hook w \<and>
         requests (snd (updateCategoryFees categoryName actualFee offerFee hasOffer answer rs w)) =
           requests w @ [feesQuery categoryName actualFee offerFee hasOffer]"
proof -
  from write_failed [OF assms, where g = "\<lambda>_. True"] obtain e where
    "updateCategoryFees categoryName actualFee offerFee hasOffer answer rs w =
       (Returned False,
        w\<lparr>requests := requests w @ [feesQuery categoryName actualFee offerFee hasOffer],
          console := console w @ [(''Error updating category fees:'', e)],
          toasts := toasts w @
            [\<lparr>title = ''Error'',
              description = ''Failed to update category fees. Please try again.'',
              variant = Some ''destructive''\<rparr>]\<rparr>)"
    unfolding updateCategoryFees_def by blast
  then show ?thesis by simp
qed

subsection \<open>What fetchData sends and keeps\<close>

lemma fetchData_requests:
  "\<exists>reads. requests (snd (fetchData rs w)) = requests w @ reads \<and>
           list_all (\<lambda>q. \<not> writes q) reads"
proof -
  let ?P = "\<lambda>v::world. \<exists>reads. requests v = requests w @ reads \<and> list_all (\<lambda>q. \<not> writes q) reads"
  have sends: "preserves ?P (await q a)" if "\<not> writes q" for q and a :: "'a awaited"
    unfolding preserves_def
  proof (intro allI impI)
    fix v :: world assume "?P v"
    then obtain reads where "requests v = requests w @ reads" "list_all (\<lambda>q. \<not> writes q) reads"
      by blast
    with that have "requests (snd (await q a v)) = requests w @ (reads @ [q]) \<and>
        list_all (\<lambda>q. \<not> writes q) (reads @ [q])"
      by (cases a) (simp_all add: await_def)
    then show "?P (snd (await q a v))" by blast
  qed
  have "preserves ?P (fetchData rs)"
    by (rule fetchData_preserves)
       (simp_all add: sends, simp_all add: preserves_def setLoading_def setCategories_def
          setPanchayaths_def setAnnouncements_def setPhotoGallery_def setRegistrations_def
          setNotifications_def console_error_def toast_def)
  moreover have "?P w" by simp
  ultimately show ?thesis
    unfolding preserves_def by blast
qed

lemma fetchData_valid:
  assumes "list_all valid_target_audience (notifications (hook w))"
  shows "list_all valid_target_audience (notifications (hook (snd (fetchData rs w))))"
proof -
  have "preserves (\<lambda>v. list_all valid_target_audience (notifications (hook v))) (fetchData rs)"
    by (rule fetchData_preserves)
       (simp_all add: preserves_def await_def setLoading_def setCategories_def
          setPanchayaths_def setAnnouncements_def setPhotoGallery_def setRegistrations_def
          setNotifications_def console_error_def toast_def split: awaited.splits)
  with assms show ?thesis
    unfolding preserves_def by blast
qed

lemma succeeded_or_failed: "succeeded a \<or> failed a"
  by (simp add: succeeded_def)

lemma perform_valid:
  assumes "list_all valid_target_audience (notifications (hook w))"
  shows "list_all valid_target_audience (notifications (hook (perform a w)))"
proof (cases a)
  case (Refresh rs)
  with assms show ?thesis by (simp add: fetchData_valid)
next
  case (CreateRegistration d ans rs)
  from succeeded_or_failed [of ans] show ?thesis
  proof
    assume "succeeded ans"
    with CreateRegistration assms show ?thesis
      by (simp add: createRegistration_succeeded fetchData_valid)
  next
    assume "failed ans"
    with CreateRegistration assms createRegistration_failed [of ans d rs w] show ?thesis
      by simp
  qed
next
  case (UpdateRegistrationStatus rid st u now ans rs)
  from succeeded_or_failed [of ans] show ?thesis
  proof
    assume "succeeded ans"
    with UpdateRegistrationStatus assms show ?thesis
      by (simp add: updateRegistrationStatus_succeeded fetchData_valid)
  next
    assume "failed ans"
    with UpdateRegistrationStatus assms
      updateRegistrationStatus_failed [of ans rid st u now rs w] show ?thesis
      by simp
  qed
next
  case (DeleteRegistration rid ans rs)
  from succeeded_or_failed [of ans] show ?thesis
  proof
    assume "succeeded ans"
    with DeleteRegistration assms show ?thesis
      by (simp add: deleteRegistration_succeeded fetchData_valid)
  next
    assume "failed ans"
    with DeleteRegistration assms deleteRegistration_failed [of ans rid rs w] show ?thesis
      by simp
  qed
next
  case (UpdateCategoryImage n url ans rs)
  from succeeded_or_failed [of ans] show ?thesis
  proof
    assume "succeeded ans"
    with UpdateCategoryImage assms show ?thesis
      by (simp add: updateCategoryImage_succeeded fetchData_valid)
  next
    assume "failed ans"
    with UpdateCategoryImage assms updateCategoryImage_failed [of ans n url rs w] show ?thesis
      by simp
  qed
next
  case (UpdateCategoryFees n af off ho ans rs)
  from succeeded_or_failed [of ans] show ?thesis
  proof
    assume "succeeded ans"
    with UpdateCategoryFees assms show ?thesis
      by (simp add: updateCategoryFees_succeeded fetchData_valid)
  next
    assume "failed ans"
    with UpdateCategoryFees assms updateCategoryFees_failed [of ans n af off ho rs w]
    show ?thesis
      by simp
  qed
qed

lemma run_valid:
  "list_all valid_target_audience (notifications (hook w)) \<Longrightarrow>
   list_all valid_target_audience (notifications (hook (run acts w)))"
  by (induction acts arbitrary: w) (simp_all add: perform_valid)

lemma valid_target_audience_iff:
  "valid_target_audience n \<longleftrightarrow>
   target_audience n \<in> {''all'', ''category'', ''panchayath'', ''admin''}"
  by (simp add: valid_target_audience_def)

subsection \<open>The boolean mutators in full\<close>

lemma after_write:
  "\<exists>reads. requests (snd (fetchData rs (w\<lparr>requests := requests w @ [q],
                                              toasts := ts\<rparr>))) =
          requests w @ q # reads \<and> list_all (\<lambda>q. \<not> writes q) reads"
  using fetchData_requests [of rs "w\<lparr>requests := requests w @ [q], toasts := ts\<rparr>"]
  by simp

lemma after_write_hook:
  "hook (snd (fetchData rs (w\<lparr>requests := qs, toasts := ts\<rparr>))) = hook (snd (fetchData rs w))"
  by (rule fetchData_hook) simp

lemma failed_iff: "failed a \<longleftrightarrow> \<not> succeeded a"
  by (simp add: succeeded_def)

lemma updateRegistrationStatus_outcome:
  "fst (updateRegistrationStatus rid st uniqueId now answer rs w) = Returned (succeeded answer) \<and>
   writes (statusQuery rid st now uniqueId) \<and>
   (\<exists>reads. requests (snd (updateRegistrationStatus rid st uniqueId now answer rs w)) =
                 requests w @ statusQuery rid st now uniqueId # reads \<and>
            list_all (\<lambda>q. \<not> writes q) reads \<and> (failed answer \<longrightarrow> reads = [])) \<and>
   (succeeded answer \<longrightarrow>
      snd (updateRegistrationStatus rid st uniqueId now answer rs w) =
      snd (fetchData rs
            (w\<lparr>requests := requests w @ [statusQuery rid st now uniqueId],
               toasts := toasts w @
                 [\<lparr>title = ''Registration Updated'',
                   description = ''Registration has been '' @ status_text st @ ''.'',
                   variant = None\<rparr>]\<rparr>))) \<and>
   (failed answer \<longrightarrow>
      hook (snd (updateRegistrationStatus rid st uniqueId now answer rs w)) = hook w)"
proof (cases "succeeded answer")
  case True
  from after_write True show ?thesis
    by (simp add: statusQuery_def updateRegistrationStatus_succeeded failed_iff)
next
  case False
  then have "failed answer" by (simp add: failed_iff)
  from updateRegistrationStatus_failed [OF this] False show ?thesis
    by (simp add: failed_iff statusQuery_def)
qed

lemma deleteRegistration_outcome:
  "fst (deleteRegistration rid answer rs w) = Returned (succeeded answer) \<and>
   writes (deleteQuery rid) \<and>
   (\<exists>reads. requests (snd (deleteRegistration rid answer rs w)) =
                 requests w @ deleteQuery rid # reads \<and>
            list_all (\<lambda>q. \<not> writes q) reads \<and> (failed answer \<longrightarrow> reads = [])) \<and>
   (succeeded answer \<longrightarrow>
      snd (deleteRegistration rid answer rs w) =
      snd (fetchData rs
            (w\<lparr>requests := requests w @ [deleteQuery rid],
               toasts := toasts w @
                 [\<lparr>title = ''Registration Deleted'',
                   description = ''Registration has been deleted successfully.'',
                   variant = None\<rparr>]\<rparr>))) \<and>
   (failed answer \<longrightarrow> hook (snd (deleteRegistration rid answer rs w)) = hook w)"
proof (cases "succeeded answer")
  case True
  from after_write True show ?thesis
    by (simp add: deleteQuery_def deleteRegistration_succeeded failed_iff)
next
  case False
  then have "failed answer" by (simp add: failed_iff)
  from deleteRegistration_failed [OF this] False show ?thesis
    by (simp add: failed_iff deleteQuery_def)
qed

lemma updateCategoryImage_outcome:
  "fst (updateCategoryImage categoryName imageUrl answer rs w) = Returned (succeeded answer) \<and>
   writes (imageQuery categoryName imageUrl) \<and>
   (\<exists>reads. requests (snd (updateCategoryImage categoryName imageUrl answer rs w)) =
                 requests w @ imageQuery categoryName imageUrl # reads \<and>
            list_all (\<lambda>q. \<not> writes q) reads \<and> (failed answer \<longrightarrow> reads = [])) \<and>
   (succeeded answer \<longrightarrow>
      snd (updateCategoryImage categoryName imageUrl answer rs w) =
      snd (fetchData rs
            (w\<lparr>requests := requests w @ [imageQuery categoryName imageUrl],
               toasts := toasts w @
                 [\<lparr>title = ''Category Updated'',
                   description = ''Category image has been updated successfully.'',
                   variant = None\<rparr>]\<rparr>))) \<and>
   (failed answer \<longrightarrow>
      hook (snd (updateCategoryImage categoryName imageUrl answer rs w)) = hook w)"
proof (cases "succeeded answer")
  case True
  from after_write True show ?thesis
    by (simp add: imageQuery_def updateCategoryImage_succeeded failed_iff)
next
  case False
  then have "failed answer" by (simp add: failed_iff)
  from updateCategoryImage_failed [OF this] False show ?thesis
    by (simp add: failed_iff imageQuery_def)
qed

lemma updateCategoryFees_outcome:
  "fst (updateCategoryFees categoryName actualFee offerFee hasOffer answer rs w) =
     Returned (succeeded answer) \<and>
   writes (feesQuery categoryName actualFee offerFee hasOffer) \<and>
   (\<exists>reads. requests (snd (updateCategoryFees categoryName actualFee offerFee hasOffer answer rs w)) =
                 requests w @ feesQuery categoryName actualFee offerFee hasOffer # reads \<and>
            list_all (\<lambda>q. \<not> writes q) reads \<and> (failed answer \<longrightarrow> reads = [])) \<and>
   (succeeded answer \<longrightarrow>
      snd (updateCategoryFees categoryName actualFee offerFee hasOffer answer rs w) =
      snd (fetchData rs
            (w\<lparr>requests := requests w @ [feesQuery categoryName actualFee offerFee hasOffer],
               toasts := toasts w @
                 [\<lparr>title = ''Category Updated'',
                   description = ''Category fees have been updated successfully.'',
                   variant = None\<rparr>]\<rparr>))) \<and>
   (failed answer \<longrightarrow>
      hook (snd (updateCategoryFees categoryName actualFee offerFee hasOffer answer rs w)) =
      hook w)"
proof (cases "succeeded answer")
  case True
  from after_write True show ?thesis
    by (simp add: feesQuery_def updateCategoryFees_succeeded failed_iff)
next
  case False
  then have "failed answer" by (simp add: failed_iff)
  from updateCategoryFees_failed [OF this] False show ?thesis
    by (simp add: failed_iff feesQuery_def)
qed

subsection \<open>The requests of createRegistration\<close>

lemma createRegistration_requests:
  "\<exists>reads. requests (snd (createRegistration d answer rs w)) =
             requests w @ insertQuery d # reads \<and>
           list_all (\<lambda>q. \<not> writes q) reads"
proof (cases "succeeded answer")
  case True
  from after_write createRegistration_succeeded [OF True] show ?thesis
    by simp
next
  case False
  then have "failed answer" by (simp add: failed_iff)
  from createRegistration_failed [OF this] show ?thesis
    by simp
qed

subsection \<open>The status update and the remote table\<close>

lemma map_of_set_column:
  "map_of (set_column c v r) c' = (if c' = c then Some v else map_of r c')"
  by (induction r) auto

lemma updateData_cases:
  "updateData st now uniqueId =
     [(''status'', JString (status_text st)), (''approved_at'', JString now)] \<and>
     (uniqueId = None \<or> uniqueId = Some []) \<or>
   (\<exists>u. uniqueId = Some u \<and> u \<noteq> [] \<and>
        updateData st now uniqueId =
          [(''status'', JString (status_text st)), (''approved_at'', JString now),
           (''unique_id'', JString u)])"
  by (cases uniqueId) (auto simp: updateData_def Let_def)

lemma statusQuery_parts:
  "writes (statusQuery rid st now uniqueId)"
  "table_of (statusQuery rid st now uniqueId) = Some ''registrations''"
  "eq_filters (statusQuery rid st now uniqueId) = [(''id'', JString rid)]"
  "patch_of (statusQuery rid st now uniqueId) = updateData st now uniqueId"
  by (simp_all add: statusQuery_def)

lemma updateData_columns:
  "map_of (updateData st now uniqueId) ''status'' = Some (JString (status_text st))"
  "map_of (updateData st now uniqueId) ''approved_at'' = Some (JString now)"
  "uniqueId = Some u \<Longrightarrow> u \<noteq> [] \<Longrightarrow>
     map_of (updateData st now uniqueId) ''unique_id'' = Some (JString u)"
  "uniqueId = None \<or> uniqueId = Some [] \<Longrightarrow>
     map_of (updateData st now uniqueId) ''unique_id'' = None"
  "fst ` set (updateData st now uniqueId) \<subseteq> {''status'', ''approved_at'', ''unique_id''}"
  using updateData_cases [of st now uniqueId] by auto

lemma apply_updateData:
  "map_of (apply_patch (updateData st now uniqueId) r) ''status'' =
     Some (JString (status_text st))"
  "map_of (apply_patch (updateData st now uniqueId) r) ''approved_at'' = Some (JString now)"
  "c \<notin> {''status'', ''approved_at'', ''unique_id''} \<Longrightarrow>
     map_of (apply_patch (updateData st now uniqueId) r) c = map_of r c"
  using updateData_cases [of st now uniqueId] by (auto simp: map_of_set_column)

lemma apply_updateData_unique_id:
  "uniqueId = Some u \<Longrightarrow> u \<noteq> [] \<Longrightarrow>
     map_of (apply_patch (updateData st now uniqueId) r) ''unique_id'' = Some (JString u)"
  "uniqueId = None \<or> uniqueId = Some [] \<Longrightarrow>
     map_of (apply_patch (updateData st now uniqueId) r) ''unique_id'' = map_of r ''unique_id''"
  using updateData_cases [of st now uniqueId] by (auto simp: map_of_set_column)

lemma remote_update_status:
  "length (remote_update (statusQuery rid st now uniqueId) tbl) = length tbl"
  "i < length tbl \<Longrightarrow>
     remote_update (statusQuery rid st now uniqueId) tbl ! i =
       (if map_of (tbl ! i) ''id'' = Some (JString rid)
        then apply_patch (updateData st now uniqueId) (tbl ! i) else tbl ! i)"
  by (simp_all add: remote_update_def statusQuery_parts passes_def)

lemma updateRegistrationStatus_requests:
  "\<exists>reads. requests (snd (updateRegistrationStatus rid st uniqueId now answer rs w)) =
             requests w @ statusQuery rid st now uniqueId # reads \<and>
           list_all (\<lambda>q. \<not> writes q) reads"
  using updateRegistrationStatus_outcome [of rid st uniqueId now answer rs w] by blast

subsection \<open>Events at the provider\<close>

lemma deliver_subscribed: "subscribed (deliver e w) = subscribed w"
  by (cases e) (simp_all add: setUser_def)

lemma deliver_all_subscribed: "subscribed (deliver_all es w) = subscribed w"
  by (induction es arbitrary: w) (simp_all add: deliver_subscribed)

lemma session_change_pending:
  "session_change e \<Longrightarrow> session_pending (deliver e w) = session_pending w"
  by (cases e) (simp_all add: setUser_def)

lemma session_changes_pending:
  "list_all session_change es \<Longrightarrow> session_pending (deliver_all es w) = session_pending w"
  by (induction es arbitrary: w) (simp_all add: session_change_pending)

lemma deliver_unsubscribed:
  assumes "\<not> subscribed w"
  shows "filter (\<lambda>c. c = AuthStateChanged) (callbacks (deliver e w)) =
         filter (\<lambda>c. c = AuthStateChanged) (callbacks w)"
    and "session_change e \<Longrightarrow> deliver e w = w"
  using assms by (cases e; simp add: setUser_def)+

lemma deliver_all_unsubscribed:
  assumes "\<not> subscribed w"
  shows "filter (\<lambda>c. c = AuthStateChanged) (callbacks (deliver_all es w)) =
         filter (\<lambda>c. c = AuthStateChanged) (callbacks w)"
  using assms
proof (induction es arbitrary: w)
  case Nil
  show ?case by simp
next
  case (Cons e es)
  from Cons.prems have "\<not> subscribed (deliver e w)"
    by (simp add: deliver_subscribed)
  from Cons.IH [OF this] deliver_unsubscribed(1) [OF Cons.prems, of e] show ?case
    by simp
qed

lemma session_changes_unsubscribed:
  "\<not> subscribed w \<Longrightarrow> list_all session_change es \<Longrightarrow> deliver_all es w = w"
  by (induction es arbitrary: w) (simp_all add: deliver_unsubscribed(2))

section \<open>The claims\<close>

subsection \<open>C1: what a successful refresh stores\<close>

text \<open>
  C1, as amended. When all six reads of a \<open>fetchData\<close> call succeed, five collections
  are exactly the rows their reads delivered, in the delivered order (a \<open>null\<close> payload
  counting as no rows), the notifications are the delivered rows whose
  \<open>target_audience\<close> is one of all, category, panchayath and admin, in the delivered
  order, and loading is false. The six requests sent are the six of the source, in its
  order: categories by name ascending, panchayaths by malayalam_name ascending,
  announcements with \<open>is_active = true\<close> by created_at descending, photo gallery by
  uploaded_at descending, registrations by submitted_at descending, notifications by
  created_at descending; only the announcements request carries a filter.
\<close>

theorem fetchData_refresh:
  assumes "all_succeeded rs"
  shows "hook (snd (fetchData rs w)) =
           \<lparr>registrations = rows (registrationsRead rs),
            categories = rows (categoriesRead rs),
            panchayaths = rows (panchayathsRead rs),
            announcements = rows (announcementsRead rs),
            photoGallery = rows (galleryRead rs),
            notifications =
              filter (\<lambda>n. target_audience n \<in> {''all'', ''category'', ''panchayath'', ''admin''})
                (rows (notificationsRead rs)),
            loading = False\<rparr>
         \<and> requests (snd (fetchData rs w)) =
             requests w @
             [[From ''categories'', Select (Some ''*''), Order ''name'' None],
              [From ''panchayaths'', Select (Some ''*''), Order ''malayalam_name'' None],
              [From ''announcements'', Select (Some ''*''), Eq ''is_active'' (JBoolean True),
               Order ''created_at'' (Some False)],
              [From ''photo_gallery'', Select (Some ''*''), Order ''uploaded_at'' (Some False)],
              [From ''registrations'', Select (Some ''*''), Order ''submitted_at'' (Some False)],
              [From ''push_notifications'', Select (Some ''*''),
               Order ''created_at'' (Some False)]]
         \<and> map order_by (drop (length (requests w)) (requests (snd (fetchData rs w)))) =
             [[(''name'', True)], [(''malayalam_name'', True)], [(''created_at'', False)],
              [(''uploaded_at'', False)], [(''submitted_at'', False)], [(''created_at'', False)]]
         \<and> map eq_filters (drop (length (requests w)) (requests (snd (fetchData rs w)))) =
             [[], [], [(''is_active'', JBoolean True)], [], [], []]"
proof -
  have valid: "valid_target_audience =
      (\<lambda>n. target_audience n \<in> {''all'', ''category'', ''panchayath'', ''admin''})"
    by (rule ext) (simp add: valid_target_audience_def)
  show ?thesis
    unfolding fetchData_success [OF assms] valid
    by (simp add: categoriesQuery_def panchayathsQuery_def announcementsQuery_def
          galleryQuery_def registrationsQuery_def notificationsQuery_def ascending_def)
qed

text \<open>
  Witness for C1: six successful reads with two categories and one notification for
  admin, from the initial world.
\<close>

theorem fetchData_refresh_witness:
  "all_succeeded (sample_reads [sample_notification ''n1'' ''admin'']) \<and>
   categories (hook (snd (fetchData (sample_reads [sample_notification ''n1'' ''admin''])
                            initial_world))) =
     [sample_category ''farming'', sample_category ''tailoring''] \<and>
   notifications (hook (snd (fetchData (sample_reads [sample_notification ''n1'' ''admin''])
                               initial_world))) =
     [sample_notification ''n1'' ''admin'']"
proof -
  have h: "all_succeeded (sample_reads [sample_notification ''n1'' ''admin''])"
    by (simp add: sample_defs)
  show ?thesis
    using h fetchData_refresh [OF h, of initial_world]
    by (simp add: sample_reads_def answered_def rows_def or_empty_def sample_notification_def)
qed

text \<open>
  Counterexample to C1 as stated: all six reads succeed, the notifications read delivers
  one row whose \<open>target_audience\<close> is everyone, and the notifications collection is
  empty afterwards, not the delivered result.
\<close>

theorem fetchData_exact_counterexample:
  "all_succeeded (sample_reads [sample_notification ''n1'' ''everyone'']) \<and>
   notificationsRead (sample_reads [sample_notification ''n1'' ''everyone'']) =
     Resolved \<lparr>data = Some [sample_notification ''n1'' ''everyone''], error = None\<rparr> \<and>
   notifications (hook (snd (fetchData (sample_reads [sample_notification ''n1'' ''everyone''])
                               initial_world))) = []"
proof -
  have h: "all_succeeded (sample_reads [sample_notification ''n1'' ''everyone''])"
    by (simp add: sample_defs)
  show ?thesis
    using h fetchData_success [OF h, of initial_world]
    by (simp add: sample_reads_def answered_def rows_def or_empty_def
          sample_notification_def valid_target_audience_def)
qed

subsection \<open>C2: a refresh that fails part-way\<close>

text \<open>
  C2. Whatever the six reads answer, loading is false when \<open>fetchData\<close> is done. When
  the k-th read is the first to fail, the collections of the reads before it hold the
  rows just delivered, and the k-th collection and every collection after it are as
  they were before the call; the state is otherwise untouched. Every collection stays
  a list: nothing is stored for the failed read. One conjunct for each k, in the order
  of the reads: categories, panchayaths, announcements, photo gallery, registrations,
  notifications.
\<close>

theorem fetchData_failure:
  "loading (hook (snd (fetchData rs w))) = False \<and>
   (failed (categoriesRead rs) \<longrightarrow>
      hook (snd (fetchData rs w)) = (hook w)\<lparr>loading := False\<rparr>) \<and>
   (succeeded (categoriesRead rs) \<and> failed (panchayathsRead rs) \<longrightarrow>
      hook (snd (fetchData rs w)) =
        (hook w)\<lparr>categories := rows (categoriesRead rs), loading := False\<rparr>) \<and>
   (succeeded (categoriesRead rs) \<and> succeeded (panchayathsRead rs) \<and>
    failed (announcementsRead rs) \<longrightarrow>
      hook (snd (fetchData rs w)) =
        (hook w)\<lparr>categories := rows (categoriesRead rs),
                  panchayaths := rows (panchayathsRead rs), loading := False\<rparr>) \<and>
   (succeeded (categoriesRead rs) \<and> succeeded (panchayathsRead rs) \<and>
    succeeded (announcementsRead rs) \<and> failed (galleryRead rs) \<longrightarrow>
      hook (snd (fetchData rs w)) =
        (hook w)\<lparr>categories := rows (categoriesRead rs),
                  panchayaths := rows (panchayathsRead rs),
                  announcements := rows (announcementsRead rs), loading := False\<rparr>) \<and>
   (succeeded (categoriesRead rs) \<and> succeeded (panchayathsRead rs) \<and>
    succeeded (announcementsRead rs) \<and> succeeded (galleryRead rs) \<and>
    failed (registrationsRead rs) \<longrightarrow>
      hook (snd (fetchData rs w)) =
        (hook w)\<lparr>categories := rows (categoriesRead rs),
                  panchayaths := rows (panchayathsRead rs),
                  announcements := rows (announcementsRead rs),
                  photoGallery := rows (galleryRead rs), loading := False\<rparr>) \<and>
   (succeeded (categoriesRead rs) \<and> succeeded (panchayathsRead rs) \<and>
    succeeded (announcementsRead rs) \<and> succeeded (galleryRead rs) \<and>
    succeeded (registrationsRead rs) \<and> failed (notificationsRead rs) \<longrightarrow>
      hook (snd (fetchData rs w)) =
        (hook w)\<lparr>categories := rows (categoriesRead rs),
                  panchayaths := rows (panchayathsRead rs),
                  announcements := rows (announcementsRead rs),
                  photoGallery := rows (galleryRead rs),
                  registrations := rows (registrationsRead rs), loading := False\<rparr>)"
  using fetchData_loading [of rs w] fetchData_fails_1 [of rs w] fetchData_fails_2 [of rs w]
    fetchData_fails_3 [of rs w] fetchData_fails_4 [of rs w] fetchData_fails_5 [of rs w]
    fetchData_fails_6 [of rs w]
  by blast

text \<open>
  Witness for C2: each of the six reads failing in turn, from a world that holds rows
  of earlier calls.
\<close>

theorem fetchData_failure_witness:
  "failed (categoriesRead (failing_reads 1)) \<and>
   hook (snd (fetchData (failing_reads 1) sample_world)) = hook sample_world \<and>
   succeeded (categoriesRead (failing_reads 2)) \<and>
   failed (panchayathsRead (failing_reads 2)) \<and>
   hook (snd (fetchData (failing_reads 2) sample_world)) =
     (hook sample_world)\<lparr>categories := [sample_category ''farming'']\<rparr> \<and>
   succeeded (panchayathsRead (failing_reads 3)) \<and>
   failed (announcementsRead (failing_reads 3)) \<and>
   hook (snd (fetchData (failing_reads 3) sample_world)) =
     (hook sample_world)\<lparr>categories := [sample_category ''farming''],
                           panchayaths := [sample_panchayath]\<rparr> \<and>
   succeeded (announcementsRead (failing_reads 4)) \<and>
   failed (galleryRead (failing_reads 4)) \<and>
   hook (snd (fetchData (failing_reads 4) sample_world)) =
     (hook sample_world)\<lparr>categories := [sample_category ''farming''],
                           panchayaths := [sample_panchayath]\<rparr> \<and>
   succeeded (galleryRead (failing_reads 5)) \<and>
   failed (registrationsRead (failing_reads 5)) \<and>
   registrations (hook (snd (fetchData (failing_reads 5) sample_world))) =
     [sample_registration] \<and>
   succeeded (registrationsRead (failing_reads 6)) \<and>
   failed (notificationsRead (failing_reads 6)) \<and>
   registrations (hook (snd (fetchData (failing_reads 6) sample_world))) = [] \<and>
   notifications (hook (snd (fetchData (failing_reads 6) sample_world))) =
     [sample_notification ''n0'' ''all''] \<and>
   loading (hook (snd (fetchData (failing_reads 6) sample_world))) = False"
  using fetchData_failure [of "failing_reads 1" sample_world]
    fetchData_failure [of "failing_reads 2" sample_world]
    fetchData_failure [of "failing_reads 3" sample_world]
    fetchData_failure [of "failing_reads 4" sample_world]
    fetchData_failure [of "failing_reads 5" sample_world]
    fetchData_failure [of "failing_reads 6" sample_world]
  by (simp add: failing_reads_def sample_world_def answered_def refused_def succeeded_def
        failed_def rows_def or_empty_def)

subsection \<open>C3: what createRegistration returns\<close>

text \<open>
  C3. Let the remote side keep its contract: a resolved answer carries exactly one of
  data and error, and the row an insert answers with is the inserted record plus the
  fields the server assigns. Then \<open>createRegistration\<close> returns \<open>null\<close> exactly when the
  insert failed; it never throws; on success it returns the row of the answer, whose
  fields other than id, submitted_at and user_id are those of the input; the one write
  it sends inserts exactly the input record.
\<close>

theorem createRegistration_result:
  assumes "well_formed answer" and "honours_insert (insertQuery registrationData) answer"
  shows "(fst (createRegistration registrationData answer rs w) = Returned None \<longleftrightarrow>
            failed answer) \<and>
         (\<exists>v. fst (createRegistration registrationData answer rs w) = Returned v) \<and>
         (succeeded answer \<longrightarrow>
            (\<exists>r. fst (createRegistration registrationData answer rs w) = Returned (Some r) \<and>
                 datum answer = Some r \<and>
                 registration_data.truncate r = registrationData)) \<and>
         inserted (insertQuery registrationData) = [registrationData] \<and>
         (\<exists>reads. requests (snd (createRegistration registrationData answer rs w)) =
                    requests w @ insertQuery registrationData # reads \<and>
                  list_all (\<lambda>q. \<not> writes q) reads)"
proof (cases "succeeded answer")
  case True
  then obtain r where r: "answer = Resolved r" "error r = None"
    by (meson succeeded_Resolved)
  with assms(1) obtain row where row: "data r = Some row"
    by (auto simp: well_formed_def)
  with r assms(2) have "registration_data.truncate row = registrationData"
    by (simp add: honours_insert_def insertQuery_def)
  with r row True createRegistration_requests [of registrationData answer rs w] show ?thesis
    by (simp add: createRegistration_succeeded datum_def failed_iff insertQuery_def)
next
  case False
  then have "failed answer" by (simp add: failed_iff)
  from createRegistration_failed [OF this] False
    createRegistration_requests [of registrationData answer rs w] show ?thesis
    by (simp add: failed_iff insertQuery_def)
qed

text \<open>
  Witness for C3: an insert answered with the stored row, and a refused insert.
\<close>

theorem createRegistration_result_witness:
  "well_formed (answered sample_registration) \<and>
   honours_insert (insertQuery sample_data) (answered sample_registration) \<and>
   succeeded (answered sample_registration) \<and>
   fst (createRegistration sample_data (answered sample_registration) (sample_reads [])
          initial_world) = Returned (Some sample_registration) \<and>
   registration_data.truncate sample_registration = sample_data \<and>
   Registration.id sample_registration = ''r1'' \<and>
   well_formed (refused ''denied'' :: Registration awaited) \<and>
   honours_insert (insertQuery sample_data) (refused ''denied'') \<and>
   fst (createRegistration sample_data (refused ''denied'') (sample_reads []) initial_world) =
     Returned None"
proof -
  have a: "well_formed (answered sample_registration)"
    "honours_insert (insertQuery sample_data) (answered sample_registration)"
    "succeeded (answered sample_registration)"
    by (simp_all add: well_formed_def honours_insert_def insertQuery_def answered_def
          succeeded_def failed_def sample_registration_def sample_data_def
          registration_data.truncate_def)
  have b: "well_formed (refused ''denied'' :: Registration awaited)"
    "honours_insert (insertQuery sample_data) (refused ''denied'')"
    "failed (refused ''denied'' :: Registration awaited)"
    by (simp_all add: well_formed_def honours_insert_def refused_def failed_def)
  have i: "Registration.id sample_registration = ''r1''"
    by (simp add: sample_registration_def)
  have d: "datum (answered sample_registration) = Some sample_registration"
    by (simp add: datum_def answered_def)
  from a b i d
    createRegistration_result [OF a(1,2), of "sample_reads []" initial_world]
    createRegistration_result [OF b(1,2), of "sample_reads []" initial_world]
  show ?thesis
    by auto
qed

subsection \<open>C4: the update sent by updateRegistrationStatus\<close>

text \<open>
  C4, as amended. For every id, status (approved and rejected among them) and optional
  uniqueId, \<open>updateRegistrationStatus\<close> sends exactly one write, an update of the
  registrations table filtered by \<open>id = id\<close> alone, whose object sets status to the
  given value and approved_at to the time read at the call; when uniqueId is supplied
  and is not the empty string the same object also sets unique_id, otherwise it has no
  unique_id; it sets nothing else. Under the remote side's reading of an update, the
  rows with another id are unchanged and the rows with the given id get these columns
  and keep their others.
\<close>

theorem updateRegistrationStatus_update:
  "(\<exists>reads. requests (snd (updateRegistrationStatus rid st uniqueId now answer rs w)) =
             requests w @ statusQuery rid st now uniqueId # reads \<and>
           list_all (\<lambda>q. \<not> writes q) reads) \<and>
   writes (statusQuery rid st now uniqueId) \<and>
   table_of (statusQuery rid st now uniqueId) = Some ''registrations'' \<and>
   eq_filters (statusQuery rid st now uniqueId) = [(''id'', JString rid)] \<and>
   map_of (patch_of (statusQuery rid st now uniqueId)) ''status'' =
     Some (JString (status_text st)) \<and>
   map_of (patch_of (statusQuery rid st now uniqueId)) ''approved_at'' = Some (JString now) \<and>
   (\<forall>u. uniqueId = Some u \<and> u \<noteq> [] \<longrightarrow>
      map_of (patch_of (statusQuery rid st now uniqueId)) ''unique_id'' = Some (JString u)) \<and>
   (uniqueId = None \<or> uniqueId = Some [] \<longrightarrow>
      map_of (patch_of (statusQuery rid st now uniqueId)) ''unique_id'' = None) \<and>
   fst ` set (patch_of (statusQuery rid st now uniqueId)) \<subseteq>
     {''status'', ''approved_at'', ''unique_id''} \<and>
   length (remote_update (statusQuery rid st now uniqueId) tbl) = length tbl \<and>
   (\<forall>i < length tbl. map_of (tbl ! i) ''id'' \<noteq> Some (JString rid) \<longrightarrow>
      remote_update (statusQuery rid st now uniqueId) tbl ! i = tbl ! i) \<and>
   (\<forall>i < length tbl. map_of (tbl ! i) ''id'' = Some (JString rid) \<longrightarrow>
      map_of (remote_update (statusQuery rid st now uniqueId) tbl ! i) ''status'' =
        Some (JString (status_text st)) \<and>
      map_of (remote_update (statusQuery rid st now uniqueId) tbl ! i) ''approved_at'' =
        Some (JString now) \<and>
      (\<forall>u. uniqueId = Some u \<and> u \<noteq> [] \<longrightarrow>
         map_of (remote_update (statusQuery rid st now uniqueId) tbl ! i) ''unique_id'' =
           Some (JString u)) \<and>
      (\<forall>c. c \<notin> {''status'', ''approved_at'', ''unique_id''} \<longrightarrow>
         map_of (remote_update (statusQuery rid st now uniqueId) tbl ! i) c =
           map_of (tbl ! i) c))"
proof -
  note sent = updateRegistrationStatus_requests [of rid st uniqueId now answer rs w]
  have patch: "map_of (patch_of (statusQuery rid st now uniqueId)) ''status'' =
      Some (JString (status_text st))"
    "map_of (patch_of (statusQuery rid st now uniqueId)) ''approved_at'' = Some (JString now)"
    "\<forall>u. uniqueId = Some u \<and> u \<noteq> [] \<longrightarrow>
      map_of (patch_of (statusQuery rid st now uniqueId)) ''unique_id'' = Some (JString u)"
    "uniqueId = None \<or> uniqueId = Some [] \<longrightarrow>
      map_of (patch_of (statusQuery rid st now uniqueId)) ''unique_id'' = None"
    "fst ` set (patch_of (statusQuery rid st now uniqueId)) \<subseteq>
      {''status'', ''approved_at'', ''unique_id''}"
    using updateData_columns [where st = st and now = now and uniqueId = uniqueId]
    by (simp_all add: statusQuery_parts)
  have others: "\<forall>i < length tbl. map_of (tbl ! i) ''id'' \<noteq> Some (JString rid) \<longrightarrow>
      remote_update (statusQuery rid st now uniqueId) tbl ! i = tbl ! i"
    by (simp add: remote_update_status)
  have target: "\<forall>i < length tbl. map_of (tbl ! i) ''id'' = Some (JString rid) \<longrightarrow>
      map_of (remote_update (statusQuery rid st now uniqueId) tbl ! i) ''status'' =
        Some (JString (status_text st)) \<and>
      map_of (remote_update (statusQuery rid st now uniqueId) tbl ! i) ''approved_at'' =
        Some (JString now) \<and>
      (\<forall>u. uniqueId = Some u \<and> u \<noteq> [] \<longrightarrow>
         map_of (remote_update (statusQuery rid st now uniqueId) tbl ! i) ''unique_id'' =
           Some (JString u)) \<and>
      (\<forall>c. c \<notin> {''status'', ''approved_at'', ''unique_id''} \<longrightarrow>
         map_of (remote_update (statusQuery rid st now uniqueId) tbl ! i) c =
           map_of (tbl ! i) c)"
    by (simp add: remote_update_status apply_updateData apply_updateData_unique_id)
  from sent patch others target show ?thesis
    by (simp only: statusQuery_parts(1,2,3) remote_update_status(1) simp_thms)
qed

text \<open>
  Witness for C4: \<open>updateRegistrationStatus("r1", "approved", "U123")\<close> against a table
  of two registrations, and a rejection without uniqueId.
\<close>

theorem updateRegistrationStatus_update_witness:
  "map_of (patch_of (statusQuery ''r1'' approved ''2024-05-03T09:00:00.000Z'' (Some ''U123'')))
     ''unique_id'' = Some (JString ''U123'') \<and>
   map_of (patch_of (statusQuery ''r1'' approved ''2024-05-03T09:00:00.000Z'' (Some ''U123'')))
     ''status'' = Some (JString ''approved'') \<and>
   map_of (patch_of (statusQuery ''r2'' rejected ''2024-05-03T09:00:00.000Z'' None))
     ''unique_id'' = None \<and>
   (1::nat) < length sample_table \<and>
   map_of (sample_table ! 1) ''id'' \<noteq> Some (JString ''r1'') \<and>
   remote_update (statusQuery ''r1'' approved ''2024-05-03T09:00:00.000Z'' (Some ''U123''))
     sample_table ! 1 = sample_table ! 1 \<and>
   map_of (sample_table ! 0) ''id'' = Some (JString ''r1'') \<and>
   map_of (remote_update (statusQuery ''r1'' approved ''2024-05-03T09:00:00.000Z'' (Some ''U123''))
             sample_table ! 0) ''status'' = Some (JString ''approved'') \<and>
   map_of (remote_update (statusQuery ''r1'' approved ''2024-05-03T09:00:00.000Z'' (Some ''U123''))
             sample_table ! 0) ''unique_id'' = Some (JString ''U123'') \<and>
   map_of (remote_update (statusQuery ''r1'' approved ''2024-05-03T09:00:00.000Z'' (Some ''U123''))
             sample_table ! 0) ''full_name'' = Some (JString ''Asha'')"
proof -
  let ?q = "statusQuery ''r1'' approved ''2024-05-03T09:00:00.000Z'' (Some ''U123'')"
  note T = updateRegistrationStatus_update [of "''r1''" approved "Some ''U123''"
      "''2024-05-03T09:00:00.000Z''" "answered ()" "sample_reads []" initial_world sample_table]
  have len: "(0::nat) < length sample_table" "(1::nat) < length sample_table"
    by (simp_all add: sample_table_def)
  have ids: "map_of (sample_table ! 1) ''id'' \<noteq> Some (JString ''r1'')"
    "map_of (sample_table ! 0) ''id'' = Some (JString ''r1'')"
    "map_of (sample_table ! 0) ''full_name'' = Some (JString ''Asha'')"
    by (simp_all add: sample_table_def)
  note unique = T
    [THEN conjunct2, THEN conjunct2, THEN conjunct2, THEN conjunct2, THEN conjunct2,
     THEN conjunct2, THEN conjunct1]
  note status = T
    [THEN conjunct2, THEN conjunct2, THEN conjunct2, THEN conjunct2, THEN conjunct1]
  note others = T
    [THEN conjunct2, THEN conjunct2, THEN conjunct2, THEN conjunct2, THEN conjunct2,
     THEN conjunct2, THEN conjunct2, THEN conjunct2, THEN conjunct2, THEN conjunct2,
     THEN conjunct1]
  note target = T
    [THEN conjunct2, THEN conjunct2, THEN conjunct2, THEN conjunct2, THEN conjunct2,
     THEN conjunct2, THEN conjunct2, THEN conjunct2, THEN conjunct2, THEN conjunct2,
     THEN conjunct2]
  from unique have p1: "map_of (patch_of ?q) ''unique_id'' = Some (JString ''U123'')"
    by simp
  from status have p2: "map_of (patch_of ?q) ''status'' = Some (JString ''approved'')"
    by simp
  from others [rule_format, OF len(2) ids(1)]
  have o: "remote_update ?q sample_table ! 1 = sample_table ! 1" .
  note t = target [rule_format, OF len(1) ids(2)]
  from t [THEN conjunct1]
  have t1: "map_of (remote_update ?q sample_table ! 0) ''status'' = Some (JString ''approved'')"
    by simp
  from t [THEN conjunct2, THEN conjunct2, THEN conjunct1]
  have t2: "map_of (remote_update ?q sample_table ! 0) ''unique_id'' = Some (JString ''U123'')"
    by simp
  from t [THEN conjunct2, THEN conjunct2, THEN conjunct2] ids(3)
  have t3: "map_of (remote_update ?q sample_table ! 0) ''full_name'' = Some (JString ''Asha'')"
    by simp
  from updateRegistrationStatus_update [of "''r2''" rejected None
      "''2024-05-03T09:00:00.000Z''" "answered ()" "sample_reads []" initial_world sample_table,
      THEN conjunct2, THEN conjunct2, THEN conjunct2, THEN conjunct2, THEN conjunct2,
      THEN conjunct2, THEN conjunct2, THEN conjunct1]
  have p3: "map_of (patch_of (statusQuery ''r2'' rejected ''2024-05-03T09:00:00.000Z'' None))
      ''unique_id'' = None"
    by simp
  from p1 p2 p3 len(2) ids(1,2) o t1 t2 t3 show ?thesis
    by (intro conjI)
qed

text \<open>
  Counterexample to C4 as stated: with the empty string supplied as uniqueId, the
  update that goes out sets status and approved_at only.
\<close>

theorem updateRegistrationStatus_empty_counterexample:
  "hd (requests (snd (updateRegistrationStatus ''r1'' approved (Some '''')
         ''2024-05-03T09:00:00.000Z'' (answered ()) (sample_reads []) initial_world))) =
   [From ''registrations'',
    Update [(''status'', JString ''approved''),
            (''approved_at'', JString ''2024-05-03T09:00:00.000Z'')],
    Eq ''id'' (JString ''r1'')]"
proof -
  obtain reads where
    "requests (snd (updateRegistrationStatus ''r1'' approved (Some '''')
         ''2024-05-03T09:00:00.000Z'' (answered ()) (sample_reads []) initial_world)) =
     requests initial_world @
       statusQuery ''r1'' approved ''2024-05-03T09:00:00.000Z'' (Some '''') # reads"
    using updateRegistrationStatus_requests by blast
  then show ?thesis
    by (simp add: initial_world_def statusQuery_def updateData_def)
qed

subsection \<open>C5: only notifications with a known audience are exposed\<close>

text \<open>
  C5. After any sequence of calls of the hook, starting from its initial state and
  whatever the remote side answers, every record of the notifications collection has
  a \<open>target_audience\<close> among all, category, panchayath and admin. A record whose
  \<open>target_audience\<close> is outside that set is not in the collection after a refresh. When
  the six reads of a refresh succeed, the collection is the delivered list without the
  records outside the set.
\<close>

theorem notifications_valid:
  "(\<forall>n \<in> set (notifications (hook (run acts initial_world))).
      target_audience n \<in> {''all'', ''category'', ''panchayath'', ''admin''}) \<and>
   (target_audience n \<notin> {''all'', ''category'', ''panchayath'', ''admin''} \<longrightarrow>
      n \<notin> set (notifications (hook (snd (fetchData rs (run acts initial_world)))))) \<and>
   (all_succeeded rs \<longrightarrow>
      notifications (hook (snd (fetchData rs w))) =
        filter (\<lambda>n. target_audience n \<in> {''all'', ''category'', ''panchayath'', ''admin''})
          (rows (notificationsRead rs)))"
proof -
  have init: "list_all valid_target_audience (notifications (hook initial_world))"
    by (simp add: initial_world_def initial_state_def)
  have reach: "list_all valid_target_audience (notifications (hook (run acts initial_world)))"
    by (rule run_valid [OF init])
  have after: "list_all valid_target_audience
                 (notifications (hook (snd (fetchData rs (run acts initial_world)))))"
    by (rule fetchData_valid [OF reach])
  have valid: "valid_target_audience =
      (\<lambda>n. target_audience n \<in> {''all'', ''category'', ''panchayath'', ''admin''})"
    by (rule ext) (rule valid_target_audience_iff)
  have stored: "all_succeeded rs \<Longrightarrow>
      notifications (hook (snd (fetchData rs w))) =
        filter valid_target_audience (rows (notificationsRead rs))"
    by (simp add: fetchData_success)
  from reach after stored show ?thesis
    unfolding valid by (auto simp: list_all_iff)
qed

text \<open>
  Witness for C5: a refresh whose notifications read delivers one record for everyone
  and one for admin; the second is exposed, the first is not.
\<close>

theorem notifications_valid_witness:
  "sample_notification ''n2'' ''admin'' \<in>
     set (notifications (hook (run
       [Refresh (sample_reads [sample_notification ''n1'' ''everyone'',
                               sample_notification ''n2'' ''admin''])] initial_world))) \<and>
   target_audience (sample_notification ''n2'' ''admin'') \<in>
     {''all'', ''category'', ''panchayath'', ''admin''} \<and>
   target_audience (sample_notification ''n1'' ''everyone'') \<notin>
     {''all'', ''category'', ''panchayath'', ''admin''} \<and>
   sample_notification ''n1'' ''everyone'' \<notin>
     set (notifications (hook (snd (fetchData
       (sample_reads [sample_notification ''n1'' ''everyone'',
                      sample_notification ''n2'' ''admin''])
       (run [] initial_world))))) \<and>
   notifications (hook (snd (fetchData
       (sample_reads [sample_notification ''n1'' ''everyone'',
                      sample_notification ''n2'' ''admin'']) initial_world))) =
     [sample_notification ''n2'' ''admin'']"
proof -
  let ?rs = "sample_reads [sample_notification ''n1'' ''everyone'',
                           sample_notification ''n2'' ''admin'']"
  have h: "all_succeeded ?rs"
    by (simp add: sample_defs)
  have a1: "target_audience (sample_notification ''n1'' ''everyone'') \<notin>
     {''all'', ''category'', ''panchayath'', ''admin''}"
    by (simp add: sample_notification_def)
  have stored: "notifications (hook (snd (fetchData ?rs initial_world))) =
      [sample_notification ''n2'' ''admin'']"
    using h notifications_valid [of "[]" "sample_notification ''n1'' ''everyone''" ?rs initial_world]
    by (simp add: sample_reads_def answered_def rows_def or_empty_def sample_notification_def)
  have mem: "sample_notification ''n2'' ''admin'' \<in>
      set (notifications (hook (run [Refresh ?rs] initial_world)))"
    using stored by simp
  from a1 mem stored
    notifications_valid [of "[Refresh ?rs]" "sample_notification ''n1'' ''everyone''" ?rs initial_world]
    notifications_valid [of "[]" "sample_notification ''n1'' ''everyone''" ?rs initial_world]
  show ?thesis
    by blast
qed

subsection \<open>C6: what the boolean mutators return\<close>

text \<open>
  C6. For each of \<open>updateRegistrationStatus\<close>, \<open>deleteRegistration\<close>,
  \<open>updateCategoryImage\<close> and \<open>updateCategoryFees\<close>: the call never throws; it returns
  true when its write succeeded and false when it failed (\<open>succeeded\<close> is the negation
  of \<open>failed\<close>); the first request it sends is its write and no later request is a
  write; after a successful write it goes on exactly as \<open>fetchData\<close> does from the
  world with that request and the success toast added; after a failed write it sends
  nothing more and leaves the hook's state as it was.
\<close>

theorem mutators_outcome:
  "(fst (updateRegistrationStatus rid st uniqueId now answer rs w) = Returned (succeeded answer) \<and>
      writes (statusQuery rid st now uniqueId) \<and>
      (\<exists>reads. requests (snd (updateRegistrationStatus rid st uniqueId now answer rs w)) =
                    requests w @ statusQuery rid st now uniqueId # reads \<and>
               list_all (\<lambda>q. \<not> writes q) reads \<and> (failed answer \<longrightarrow> reads = [])) \<and>
      (succeeded answer \<longrightarrow>
         snd (updateRegistrationStatus rid st uniqueId now answer rs w) =
         snd (fetchData rs
               (w\<lparr>requests := requests w @ [statusQuery rid st now uniqueId],
                  toasts := toasts w @
                    [\<lparr>title = ''Registration Updated'',
                      description = ''Registration has been '' @ status_text st @ ''.'',
                      variant = None\<rparr>]\<rparr>))) \<and>
      (failed answer \<longrightarrow>
         hook (snd (updateRegistrationStatus rid st uniqueId now answer rs w)) = hook w)) \<and>
  (fst (deleteRegistration rid answer rs w) = Returned (succeeded answer) \<and>
      writes (deleteQuery rid) \<and>
      (\<exists>reads. requests (snd (deleteRegistration rid answer rs w)) =
                    requests w @ deleteQuery rid # reads \<and>
               list_all (\<lambda>q. \<not> writes q) reads \<and> (failed answer \<longrightarrow> reads = [])) \<and>
      (succeeded answer \<longrightarrow>
         snd (deleteRegistration rid answer rs w) =
         snd (fetchData rs
               (w\<lparr>requests := requests w @ [deleteQuery rid],
                  toasts := toasts w @
                    [\<lparr>title = ''Registration Deleted'',
                      description = ''Registration has been deleted successfully.'',
                      variant = None\<rparr>]\<rparr>))) \<and>
      (failed answer \<longrightarrow> hook (snd (deleteRegistration rid answer rs w)) = hook w)) \<and>
  (fst (updateCategoryImage categoryName imageUrl answer rs w) = Returned (succeeded answer) \<and>
      writes (imageQuery categoryName imageUrl) \<and>
      (\<exists>reads. requests (snd (updateCategoryImage categoryName imageUrl answer rs w)) =
                    requests w @ imageQuery categoryName imageUrl # reads \<and>
               list_all (\<lambda>q. \<not> writes q) reads \<and> (failed answer \<longrightarrow> reads = [])) \<and>
      (succeeded answer \<longrightarrow>
         snd (updateCategoryImage categoryName imageUrl answer rs w) =
         snd (fetchData rs
               (w\<lparr>requests := requests w @ [imageQuery categoryName imageUrl],
                  toasts := toasts w @
                    [\<lparr>title = ''Category Updated'',
                      description = ''Category image has been updated successfully.'',
                      variant = None\<rparr>]\<rparr>))) \<and>
      (failed answer \<longrightarrow>
         hook (snd (updateCategoryImage categoryName imageUrl answer rs w)) = hook w)) \<and>
  (fst (updateCategoryFees categoryName actualFee offerFee hasOffer answer rs w) =
        Returned (succeeded answer) \<and>
      writes (feesQuery categoryName actualFee offerFee hasOffer) \<and>
      (\<exists>reads. requests (snd (updateCategoryFees categoryName actualFee offerFee hasOffer answer rs w)) =
                    requests w @ feesQuery categoryName actualFee offerFee hasOffer # reads \<and>
               list_all (\<lambda>q. \<not> writes q) reads \<and> (failed answer \<longrightarrow> reads = [])) \<and>
      (succeeded answer \<longrightarrow>
         snd (updateCategoryFees categoryName actualFee offerFee hasOffer answer rs w) =
         snd (fetchData rs
               (w\<lparr>requests := requests w @ [feesQuery categoryName actualFee offerFee hasOffer],
                  toasts := toasts w @
                    [\<lparr>title = ''Category Updated'',
                      description = ''Category fees have been updated successfully.'',
                      variant = None\<rparr>]\<rparr>))) \<and>
      (failed answer \<longrightarrow>
         hook (snd (updateCategoryFees categoryName actualFee offerFee hasOffer answer rs w)) =
         hook w))"
  by (rule conjI [OF updateRegistrationStatus_outcome
        conjI [OF deleteRegistration_outcome
          conjI [OF updateCategoryImage_outcome updateCategoryFees_outcome]]])

text \<open>
  Witness for C6: each of the four mutators with an accepted and with a refused write.
\<close>

theorem mutators_outcome_witness:
  "succeeded (answered ()) \<and> failed (refused ''denied'' :: unit awaited) \<and>
   fst (updateRegistrationStatus ''r1'' approved (Some ''U123'') ''2024-05-03T09:00:00.000Z''
          (answered ()) (sample_reads []) sample_world) = Returned True \<and>
   fst (deleteRegistration ''r1'' (answered ()) (sample_reads []) sample_world) = Returned True \<and>
   fst (updateCategoryImage ''farming'' ''farm.png'' (answered ()) (sample_reads []) sample_world) =
     Returned True \<and>
   fst (updateCategoryFees ''farming'' 500 300 True (answered ()) (sample_reads []) sample_world) =
     Returned True \<and>
   fst (updateRegistrationStatus ''r1'' approved (Some ''U123'') ''2024-05-03T09:00:00.000Z''
          (refused ''denied'') (sample_reads []) sample_world) = Returned False \<and>
   fst (deleteRegistration ''r1'' (refused ''denied'') (sample_reads []) sample_world) =
     Returned False \<and>
   fst (updateCategoryImage ''farming'' ''farm.png'' (refused ''denied'') (sample_reads [])
          sample_world) = Returned False \<and>
   fst (updateCategoryFees ''farming'' 500 300 True (refused ''denied'') (sample_reads [])
          sample_world) = Returned False \<and>
   requests (snd (deleteRegistration ''r1'' (refused ''denied'') (sample_reads []) sample_world)) =
     [deleteQuery ''r1''] \<and>
   hook (snd (deleteRegistration ''r1'' (refused ''denied'') (sample_reads []) sample_world)) =
     hook sample_world"
proof -
  have s: "succeeded (answered ())" and f: "failed (refused ''denied'' :: unit awaited)"
    by (simp_all add: answered_def refused_def succeeded_def failed_def)
  have e: "requests sample_world = []"
    by (simp add: sample_world_def)
  show ?thesis
    using s f e
      mutators_outcome [of "''r1''" approved "Some ''U123''" "''2024-05-03T09:00:00.000Z''"
        "answered ()" "sample_reads []" sample_world "''farming''" "''farm.png''" 500 300 True]
      mutators_outcome [of "''r1''" approved "Some ''U123''" "''2024-05-03T09:00:00.000Z''"
        "refused ''denied''" "sample_reads []" sample_world "''farming''" "''farm.png''" 500 300
        True]
    by (simp add: failed_iff)
qed

subsection \<open>C7: the collections change through fetchData only\<close>

text \<open>
  C7. For each of the five mutators: after a failed write the hook's state (the six
  collections and the loading flag) is the state before the call, and after a
  successful write it is the state that \<open>fetchData\<close> alone, with the same answers to
  its reads, produces from the state before the call. So a mutator assigns no
  collection itself.
\<close>

theorem mutators_state:
  "(failed ins \<longrightarrow> hook (snd (createRegistration d ins rs w)) = hook w) \<and>
   (succeeded ins \<longrightarrow>
      hook (snd (createRegistration d ins rs w)) = hook (snd (fetchData rs w))) \<and>
   (failed answer \<longrightarrow>
      hook (snd (updateRegistrationStatus rid st uniqueId now answer rs w)) = hook w) \<and>
   (succeeded answer \<longrightarrow>
      hook (snd (updateRegistrationStatus rid st uniqueId now answer rs w)) =
      hook (snd (fetchData rs w))) \<and>
   (failed answer \<longrightarrow> hook (snd (deleteRegistration rid answer rs w)) = hook w) \<and>
   (succeeded answer \<longrightarrow>
      hook (snd (deleteRegistration rid answer rs w)) = hook (snd (fetchData rs w))) \<and>
   (failed answer \<longrightarrow>
      hook (snd (updateCategoryImage categoryName imageUrl answer rs w)) = hook w) \<and>
   (succeeded answer \<longrightarrow>
      hook (snd (updateCategoryImage categoryName imageUrl answer rs w)) =
      hook (snd (fetchData rs w))) \<and>
   (failed answer \<longrightarrow>
      hook (snd (updateCategoryFees categoryName actualFee offerFee hasOffer answer rs w)) =
      hook w) \<and>
   (succeeded answer \<longrightarrow>
      hook (snd (updateCategoryFees categoryName actualFee offerFee hasOffer answer rs w)) =
      hook (snd (fetchData rs w)))"
proof -
  have "hook (snd (createRegistration d ins rs w)) = hook w" if "failed ins"
    using createRegistration_failed [OF that] by simp
  moreover have "hook (snd (createRegistration d ins rs w)) = hook (snd (fetchData rs w))"
    if "succeeded ins"
    by (simp add: createRegistration_succeeded [OF that] after_write_hook)
  moreover have "hook (snd (updateRegistrationStatus rid st uniqueId now answer rs w)) = hook w"
    if "failed answer"
    using updateRegistrationStatus_failed [OF that] by simp
  moreover have "hook (snd (updateRegistrationStatus rid st uniqueId now answer rs w)) =
      hook (snd (fetchData rs w))" if "succeeded answer"
    by (simp add: updateRegistrationStatus_succeeded [OF that] after_write_hook)
  moreover have "hook (snd (deleteRegistration rid answer rs w)) = hook w" if "failed answer"
    using deleteRegistration_failed [OF that] by simp
  moreover have "hook (snd (deleteRegistration rid answer rs w)) = hook (snd (fetchData rs w))"
    if "succeeded answer"
    by (simp add: deleteRegistration_succeeded [OF that] after_write_hook)
  moreover have "hook (snd (updateCategoryImage categoryName imageUrl answer rs w)) = hook w"
    if "failed answer"
    using updateCategoryImage_failed [OF that] by simp
  moreover have "hook (snd (updateCategoryImage categoryName imageUrl answer rs w)) =
      hook (snd (fetchData rs w))" if "succeeded answer"
    by (simp add: updateCategoryImage_succeeded [OF that] after_write_hook)
  moreover have "hook (snd (updateCategoryFees categoryName actualFee offerFee hasOffer answer rs w)) =
      hook w" if "failed answer"
    using updateCategoryFees_failed [OF that] by simp
  moreover have "hook (snd (updateCategoryFees categoryName actualFee offerFee hasOffer answer rs w)) =
      hook (snd (fetchData rs w))" if "succeeded answer"
    by (simp add: updateCategoryFees_succeeded [OF that] after_write_hook)
  ultimately show ?thesis by blast
qed

text \<open>
  Witness for C7: a refused insert, and a fee update refused and accepted, from a world
  that holds rows of earlier calls.
\<close>

theorem mutators_state_witness:
  "failed (refused ''denied'' :: Registration awaited) \<and>
   failed (refused ''denied'' :: unit awaited) \<and>
   succeeded (answered ()) \<and>
   hook (snd (createRegistration sample_data (refused ''denied'') (sample_reads []) sample_world)) =
     hook sample_world \<and>
   hook (snd (updateCategoryFees ''farming'' 500 300 True (refused ''denied'') (sample_reads [])
                sample_world)) = hook sample_world \<and>
   hook (snd (updateCategoryFees ''farming'' 500 300 True (answered ()) (sample_reads [])
                sample_world)) =
     hook (snd (fetchData (sample_reads []) sample_world)) \<and>
   categories (hook (snd (updateCategoryFees ''farming'' 500 300 True (answered ())
                            (sample_reads []) sample_world))) =
     [sample_category ''farming'', sample_category ''tailoring'']"
proof -
  have f: "failed (refused ''denied'' :: Registration awaited)"
    and g: "failed (refused ''denied'' :: unit awaited)"
    and s: "succeeded (answered ())"
    by (simp_all add: answered_def refused_def succeeded_def failed_def)
  have h: "all_succeeded (sample_reads [])"
    by (simp add: sample_defs)
  have c: "categories (hook (snd (fetchData (sample_reads []) sample_world))) =
      [sample_category ''farming'', sample_category ''tailoring'']"
    using fetchData_success [OF h, of sample_world]
    by (simp add: sample_reads_def answered_def rows_def or_empty_def)
  show ?thesis
    using f g s c
      mutators_state [of "refused ''denied''" sample_data "sample_reads []" sample_world
        "refused ''denied''" "''r1''" approved None "''2024-05-03T09:00:00.000Z''"
        "''farming''" "''farm.png''" 500 300 True]
      mutators_state [of "refused ''denied''" sample_data "sample_reads []" sample_world
        "answered ()" "''r1''" approved None "''2024-05-03T09:00:00.000Z''"
        "''farming''" "''farm.png''" 500 300 True]
    by (simp add: failed_iff)
qed

subsection \<open>C8: the provider's user while mounted\<close>

text \<open>
  C8. Mounting the provider makes one \<open>getSession\<close> call. When its promise resolves,
  any session changes having come first, the user becomes the user of the session in
  the answer, and \<open>null\<close> when the answer has no data, no session or no user. While the
  provider is mounted, whatever came before, a session change makes the user the user
  of the session it carries, and \<open>null\<close> when it carries none.
\<close>

theorem AuthProvider_user:
  "getSession_calls (mount w) = getSession_calls w + 1 \<and>
   (list_all session_change es \<longrightarrow>
      user (deliver (SessionResolved r) (deliver_all es (mount w))) =
        (case data r of
           None \<Rightarrow> None
         | Some d \<Rightarrow> (case session d of None \<Rightarrow> None | Some s \<Rightarrow> session.user s))) \<and>
   user (deliver (AuthStateChange ev s) (deliver_all es' (mount w))) =
     (case s of None \<Rightarrow> None | Some x \<Rightarrow> session.user x)"
proof -
  have "session_pending (deliver_all es (mount w))" if "list_all session_change es"
    using session_changes_pending [OF that, of "mount w"] by (simp add: mount_def)
  moreover have "subscribed (deliver_all es' (mount w))"
    by (simp add: deliver_all_subscribed mount_def)
  ultimately show ?thesis
    by (simp add: mount_def setUser_def loaded_user_def session_user_def split: option.splits)
qed

text \<open>
  Witness for C8: the provider mounts while alice is signed in, a first event comes
  before the answer of \<open>getSession\<close>, and a later event carries no session.
\<close>

theorem AuthProvider_user_witness:
  "list_all session_change [AuthStateChange ''INITIAL_SESSION'' (None :: string session option)] \<and>
   user (deliver (SessionResolved sample_session)
          (deliver_all [AuthStateChange ''INITIAL_SESSION'' None] (mount initial_auth))) =
     Some ''alice'' \<and>
   user (deliver (AuthStateChange ''SIGNED_OUT'' None)
          (deliver_all [SessionResolved sample_session] (mount initial_auth))) = None \<and>
   getSession_calls (mount (initial_auth :: string auth_world)) = 1"
  using AuthProvider_user [of initial_auth "[AuthStateChange ''INITIAL_SESSION'' None]"
      sample_session "''SIGNED_OUT''" None "[SessionResolved sample_session]"]
  by (simp add: sample_session_def initial_auth_def)

subsection \<open>C9: the provider after teardown\<close>

text \<open>
  C9, as amended. Teardown releases the subscription. After it, session changes,
  however many, leave the user and the log of callbacks as they were; and whatever
  events follow, the answer of \<open>getSession\<close> among them, the session-change callback
  never runs again and a session change leaves the whole state of the provider as it
  finds it. What the \<open>then\<close> callback of \<open>getSession\<close> does after teardown is left
  open here.
\<close>

theorem AuthProvider_teardown:
  "\<not> subscribed (unmount w) \<and>
   (list_all session_change es \<longrightarrow>
      user (deliver_all es (unmount w)) = user w \<and>
      callbacks (deliver_all es (unmount w)) = callbacks w) \<and>
   filter (\<lambda>c. c = AuthStateChanged) (callbacks (deliver_all es' (unmount w))) =
     filter (\<lambda>c. c = AuthStateChanged) (callbacks w) \<and>
   deliver (AuthStateChange ev s) (deliver_all es' (unmount w)) = deliver_all es' (unmount w)"
proof -
  have u: "\<not> subscribed (unmount w)"
    by (simp add: unmount_def)
  then have later: "\<not> subscribed (deliver_all es' (unmount w))"
    by (simp add: deliver_all_subscribed)
  have silent: "deliver (AuthStateChange ev s) (deliver_all es' (unmount w)) =
      deliver_all es' (unmount w)"
    using later by simp
  from session_changes_unsubscribed [OF u] deliver_all_unsubscribed [OF u, of es'] u silent
  show ?thesis
    by (simp add: unmount_def)
qed

text \<open>
  Witness for C9: alice is signed in, the provider is torn down, and a sign-out event
  follows: the user is still alice, where the same event before teardown clears it.
\<close>

theorem AuthProvider_teardown_witness:
  "list_all session_change [AuthStateChange ''SIGNED_OUT'' (None :: string session option)] \<and>
   user (deliver (SessionResolved sample_session) (mount initial_auth)) = Some ''alice'' \<and>
   user (deliver_all [AuthStateChange ''SIGNED_OUT'' None]
          (unmount (deliver (SessionResolved sample_session) (mount initial_auth)))) =
     Some ''alice'' \<and>
   user (deliver_all [AuthStateChange ''SIGNED_OUT'' None]
          (deliver (SessionResolved sample_session) (mount initial_auth))) = None"
proof -
  have c: "list_all session_change [AuthStateChange ''SIGNED_OUT'' (None :: string session option)]"
    by simp
  have a: "user (deliver (SessionResolved sample_session) (mount initial_auth)) = Some ''alice''"
    by (simp add: mount_def initial_auth_def setUser_def loaded_user_def session_user_def
          sample_session_def)
  have b: "user (deliver_all [AuthStateChange ''SIGNED_OUT'' None]
          (deliver (SessionResolved sample_session) (mount initial_auth))) = (None :: string option)"
    by (simp add: mount_def initial_auth_def setUser_def loaded_user_def session_user_def)
  note T = AuthProvider_teardown
    [of "deliver (SessionResolved sample_session) (mount initial_auth)"
      "[AuthStateChange ''SIGNED_OUT'' None]" "[]"]
  from T [THEN conjunct2, THEN conjunct1, rule_format, OF c, THEN conjunct1] a
  have "user (deliver_all [AuthStateChange ''SIGNED_OUT'' None]
          (unmount (deliver (SessionResolved sample_session) (mount initial_auth)))) =
     Some ''alice''"
    by (simp only:)
  with c a b show ?thesis
    by (intro conjI)
qed

text \<open>
  Counterexample to C9 as stated: the provider mounts and is torn down before
  \<open>getSession\<close> answers. The cleanup does not cancel that promise, so when it resolves
  its \<open>then\<close> callback runs in the torn-down provider and sets the user to alice: one
  callback has fired, not zero.
\<close>

theorem AuthProvider_teardown_counterexample:
  "callbacks (unmount (mount (initial_auth :: string auth_world))) = [] \<and>
   user (unmount (mount (initial_auth :: string auth_world))) = None \<and>
   callbacks (deliver (SessionResolved sample_session) (unmount (mount initial_auth))) =
     [SessionLoaded] \<and>
   user (deliver (SessionResolved sample_session) (unmount (mount initial_auth))) =
     Some ''alice''"
  by (simp add: mount_def unmount_def initial_auth_def setUser_def loaded_user_def
        session_user_def sample_session_def)

subsection \<open>C10: what useAuth returns\<close>

text \<open>
  C10, as amended. With a provider above the caller, \<open>useAuth\<close> returns the object
  \<open>{ user }\<close> the provider passes down, whose \<open>user\<close> property is the current user
  value (\<open>null\<close> when nobody is signed in); with no provider above the caller it
  returns \<open>null\<close>.
\<close>

theorem useAuth_value:
  "useAuth (Some p) = JObject [(''user'', user_value (user p))] \<and>
   useAuth None = (JNull :: 'u js)"
  by (simp add: useAuth_def useContext_def provider_value_def AuthContext_def)

text \<open>
  Counterexample to C10 as stated: under a provider whose user is alice, \<open>useAuth\<close>
  does not return alice, and under a provider with nobody signed in it does not return
  \<open>null\<close>; both times it returns an object.
\<close>

theorem useAuth_user_counterexample:
  "user (deliver (SessionResolved sample_session) (mount initial_auth)) = Some ''alice'' \<and>
   useAuth (Some (deliver (SessionResolved sample_session) (mount initial_auth))) \<noteq>
     user_value (Some ''alice'') \<and>
   user (mount initial_auth :: string auth_world) = None \<and>
   useAuth (Some (mount initial_auth :: string auth_world)) \<noteq> user_value None"
  by (simp add: useAuth_def useContext_def provider_value_def AuthContext_def user_value_def
        mount_def initial_auth_def setUser_def loaded_user_def session_user_def
        sample_session_def)


end
